theory Spec2Isabelle
  imports Complex_Main
begin

section \<open>JavaScript numbers as far as the store uses them\<close>

text \<open>
  The store compares distances with fixed thresholds and guards one comparison with
  \<open>isNaN\<close>. A value read from a state field is \<open>undefined\<close> while the snapshot is the
  empty object \<open>{}\<close>, it may be \<open>NaN\<close>, and otherwise it is a finite number, taken here
  as a real (the infinities are left out). The subtraction, whose result the store compares
  with a threshold, rounds to the nearest double as the machine does; the sums, products
  and quotients of the announcement distances are taken exactly.
\<close>

datatype number = Undefined | NaN | Num real

text \<open>ToNumber: \<open>undefined\<close> converts to \<open>NaN\<close>, written \<open>None\<close>.\<close>

fun toNumber :: "number \<Rightarrow> real option" where
  "toNumber (Num r) = Some r"
| "toNumber NaN = None"
| "toNumber Undefined = None"

text \<open>The relational operators: false as soon as one side is \<open>NaN\<close>.\<close>

definition js_lt :: "number \<Rightarrow> number \<Rightarrow> bool" where
  "js_lt a b = (case toNumber a of None \<Rightarrow> False
     | Some x \<Rightarrow> (case toNumber b of None \<Rightarrow> False | Some y \<Rightarrow> x < y))"

definition js_le :: "number \<Rightarrow> number \<Rightarrow> bool" where
  "js_le a b = (case toNumber a of None \<Rightarrow> False
     | Some x \<Rightarrow> (case toNumber b of None \<Rightarrow> False | Some y \<Rightarrow> x \<le> y))"

definition js_gt :: "number \<Rightarrow> number \<Rightarrow> bool" where
  "js_gt a b = js_lt b a"

text \<open>Loose equality \<open>==\<close> between values that are numbers or \<open>undefined\<close>.\<close>

fun js_eq :: "number \<Rightarrow> number \<Rightarrow> bool" where
  "js_eq Undefined Undefined = True"
| "js_eq (Num x) (Num y) = (x = y)"
| "js_eq _ _ = False"

definition js_neq :: "number \<Rightarrow> number \<Rightarrow> bool" where
  "js_neq a b = (\<not> js_eq a b)"

text \<open>The global \<open>isNaN\<close> converts its argument first.\<close>

definition isNaN :: "number \<Rightarrow> bool" where
  "isNaN a = (toNumber a = None)"

definition js_arith :: "(real \<Rightarrow> real \<Rightarrow> real) \<Rightarrow> number \<Rightarrow> number \<Rightarrow> number" where
  "js_arith f a b = (case toNumber a of None \<Rightarrow> NaN
     | Some x \<Rightarrow> (case toNumber b of None \<Rightarrow> NaN | Some y \<Rightarrow> Num (f x y)))"

definition js_add :: "number \<Rightarrow> number \<Rightarrow> number" where
  "js_add = js_arith (+)"

text \<open>
  Rounding to the nearest double, ties to the even significand. \<open>exponent a\<close> is the
  binary exponent of \<open>a > 0\<close>, kept between -1022 (below, the subnormal numbers share
  that exponent) and 1023; a double has 52 binary places after its leading digit. A result
  beyond the largest double is not turned into an infinity.
\<close>

definition pow2 :: "int \<Rightarrow> real" where
  "pow2 e = (if 0 \<le> e then 2 ^ nat e else 1 / 2 ^ nat (- e))"

function expUp :: "real \<Rightarrow> int \<Rightarrow> int" where
  "expUp a e = (if 1023 \<le> e \<or> a < pow2 (e + 1) then e else expUp a (e + 1))"
  by pat_completeness auto
termination
  by (relation "measure (\<lambda>(a, e). nat (1023 - e))") auto

function expDown :: "real \<Rightarrow> int \<Rightarrow> int" where
  "expDown a e = (if e \<le> - 1022 \<or> pow2 e \<le> a then e else expDown a (e - 1))"
  by pat_completeness auto
termination
  by (relation "measure (\<lambda>(a, e). nat (e + 1022))") auto

declare expUp.simps [simp del] expDown.simps [simp del]

definition exponent :: "real \<Rightarrow> int" where
  "exponent a = (if 1 \<le> a then expUp a 0 else expDown a (- 1))"

definition roundHalfEven :: "real \<Rightarrow> int" where
  "roundHalfEven m =
     (let f = \<lfloor>m\<rfloor> in
      if m - of_int f < 1 / 2 then f
      else if 1 / 2 < m - of_int f then f + 1
      else if even f then f else f + 1)"

definition toDouble :: "real \<Rightarrow> real" where
  "toDouble x =
     (if x = 0 then 0
      else let q = pow2 (exponent \<bar>x\<bar> - 52) in q * of_int (roundHalfEven (x / q)))"

text \<open>The difference of two doubles is the exact difference, rounded.\<close>

definition js_sub :: "number \<Rightarrow> number \<Rightarrow> number" where
  "js_sub = js_arith (\<lambda>x y. toDouble (x - y))"

definition js_mul :: "number \<Rightarrow> number \<Rightarrow> number" where
  "js_mul = js_arith (*)"

text \<open>Division; the store only divides by the literals 5 and 100.\<close>

definition js_div :: "number \<Rightarrow> number \<Rightarrow> number" where
  "js_div = js_arith (/)"

definition Math_abs :: "number \<Rightarrow> number" where
  "Math_abs a = (case toNumber a of None \<Rightarrow> NaN | Some x \<Rightarrow> Num \<bar>x\<bar>)"

text \<open>\<open>Math.round\<close> rounds to the nearest integer, a half towards plus infinity.\<close>

definition Math_round :: "number \<Rightarrow> number" where
  "Math_round a = (case toNumber a of None \<Rightarrow> NaN | Some x \<Rightarrow> Num (of_int \<lfloor>x + 1 / 2\<rfloor>))"

text \<open>Reading \<open>xs[i]\<close>: \<open>undefined\<close> (here \<open>None\<close>) outside the array.\<close>

definition js_nth :: "'a list \<Rightarrow> int \<Rightarrow> 'a option" where
  "js_nth xs i = (if 0 \<le> i \<and> i < int (length xs) then Some (xs ! nat i) else None)"

section \<open>Data model\<close>

record Coordinate =
  lat :: real
  lng :: real

text \<open>\<open>Instruction\<close> of the routing response, with the fields the store reads.\<close>

record Instruction =
  street_name :: string
  instr_text :: string
  instr_sign :: int
  instr_points :: "(real \<times> real) list"

text \<open>The path details handed to \<open>getCurrentDetails\<close>: intervals with a value.\<close>

record Details =
  average_speed :: "(int \<times> int \<times> real) list"
  max_speed :: "(int \<times> int \<times> real) list"
  surface_detail :: "(int \<times> int \<times> string) list"
  road_class :: "(int \<times> int \<times> string) list"

text \<open>
  \<open>Path\<close>: \<open>snapped_waypoints\<close> holds the list \<open>snapped_waypoints.coordinates\<close>, each
  entry the pair \<open>[lng, lat]\<close>.
\<close>

record Path =
  distance :: real
  instructions :: "Instruction list"
  snapped_waypoints :: "(real \<times> real) list"
  details :: Details

type_synonym CustomModel = string

record TNInstructionState =
  index :: number
  distanceToTurn :: number
  timeToEnd :: number
  distanceToEnd :: number
  nextWaypointIndex :: number
  distanceToWaypoint :: number
  sign :: number
  instructionText :: "string option"
  distanceToRoute :: number

record TNPathDetailsState =
  maxSpeed :: number
  estimatedAvgSpeed :: number
  surface :: "string option"
  roadClass :: "string option"

record TNSettingsState =
  fakeGPS :: bool
  acceptedRisk :: bool
  soundEnabled :: bool

record TurnNavigationStoreState =
  showUI :: bool
  started :: bool
  oldTiles :: string
  coordinate :: Coordinate
  speed :: real
  heading :: real
  initialPath :: "Path option"
  activePath :: "Path option"
  activeProfile :: string
  customModel :: "CustomModel option"
  rerouteInProgress :: bool
  settings :: TNSettingsState
  instruction :: TNInstructionState
  pathDetails :: TNPathDetailsState

text \<open>The empty snapshots \<open>{} as TNInstructionState\<close> and \<open>{} as TNPathDetailsState\<close>.\<close>

definition emptyInstruction :: TNInstructionState where
  "emptyInstruction = \<lparr>index = Undefined, distanceToTurn = Undefined, timeToEnd = Undefined,
     distanceToEnd = Undefined, nextWaypointIndex = Undefined, distanceToWaypoint = Undefined,
     sign = Undefined, instructionText = None, distanceToRoute = Undefined\<rparr>"

definition emptyPathDetails :: TNPathDetailsState where
  "emptyPathDetails = \<lparr>maxSpeed = Undefined, estimatedAvgSpeed = Undefined,
     surface = None, roadClass = None\<rparr>"

text \<open>The state the constructor builds.\<close>

definition initialState :: "bool \<Rightarrow> string \<Rightarrow> TurnNavigationStoreState" where
  "initialState fake tiles = \<lparr>showUI = False, started = False, oldTiles = tiles,
     coordinate = \<lparr>lat = 0, lng = 0\<rparr>, speed = 0, heading = 0,
     initialPath = None, activePath = None, activeProfile = [], customModel = None,
     rerouteInProgress = False,
     settings = \<lparr>fakeGPS = fake, acceptedRisk = False, soundEnabled = (\<not> fake)\<rparr>,
     instruction = emptyInstruction, pathDetails = emptyPathDetails\<rparr>"

subsection \<open>Actions, requests and effects\<close>

record RoutingArgs =
  points :: "(real \<times> real) \<times> (real \<times> real)"
  maxAlternativeRoutes :: nat
  args_heading :: real
  zoom :: bool
  profile :: string
  args_customModel :: "CustomModel option"

text \<open>A settings update carries a part of the settings; an absent field is \<open>None\<close>.\<close>

record SettingsUpdate =
  upd_fakeGPS :: "bool option"
  upd_acceptedRisk :: "bool option"
  upd_soundEnabled :: "bool option"

datatype Action =
    TurnNavigationStop
  | TurnNavigationSettingsUpdate SettingsUpdate
  | TurnNavigationStart bool
  | SelectMapLayer string
  | TurnNavigationReroutingFailed
  | SetCustomModel "CustomModel option" bool
  | SetVehicleProfile string
  | SetSelectedPath Path
  | LocationUpdate Coordinate real real
  | TurnNavigationRerouting Path
  | OtherAction

text \<open>
  What a call of \<open>reduce\<close> does besides returning a state: \<open>this.stop()\<close>, \<open>this.initFake()\<close>,
  \<open>this.initReal(..)\<close>, a request \<open>this.api.route(args)\<close> and a text handed to the speech
  synthesizer.
\<close>

datatype Effect =
    StopTracking
  | InitFake
  | InitReal bool
  | Route RoutingArgs
  | Speak string

datatype error = Error string | TypeError

subsection \<open>The geometry library and the translations\<close>

text \<open>What \<open>getCurrentInstruction\<close> returns; the two indices are integers.\<close>

record CurrentInstruction =
  ci_index :: int
  ci_distanceToTurn :: number
  ci_timeToEnd :: number
  ci_distanceToEnd :: number
  ci_nextWaypointIndex :: int
  ci_distanceToWaypoint :: number
  ci_distanceToRoute :: number

text \<open>
  \<open>GeoMethods\<close> (\<open>calcDist\<close>, \<open>getCurrentInstruction\<close>, \<open>getCurrentDetails\<close>), the
  translation \<open>tr\<close> and the conversion of a number to a string are imported by the store;
  they are parameters of the model. \<open>getCurrentDetails\<close> yields the average speed, the
  maximum speed, the surface and the road class at the position.
\<close>

record Env =
  calcDist :: "Coordinate \<Rightarrow> Coordinate \<Rightarrow> number"
  getCurrentInstruction :: "Instruction list \<Rightarrow> Coordinate \<Rightarrow> CurrentInstruction"
  getCurrentDetails :: "Path \<Rightarrow> Coordinate \<Rightarrow> Details \<Rightarrow> number \<times> number \<times> string \<times> string"
  tr :: "string \<Rightarrow> string list \<Rightarrow> string"
  numberToString :: "number \<Rightarrow> string"

section \<open>The store\<close>

text \<open>\<open>getWaypoint\<close>: reading \<open>[0]\<close> of an entry that is not there is a TypeError.\<close>

definition getWaypoint :: "Path \<Rightarrow> int \<Rightarrow> error + Coordinate" where
  "getWaypoint path i = (case js_nth (snapped_waypoints path) i of
       None \<Rightarrow> Inl TypeError
     | Some c \<Rightarrow> Inr \<lparr>lat = snd c, lng = fst c\<rparr>)"

definition skipWaypoint :: "Env \<Rightarrow> number \<Rightarrow> Coordinate \<Rightarrow> Coordinate \<Rightarrow> Coordinate \<Rightarrow> bool" where
  "skipWaypoint env prevStateDistanceToWaypoint waypoint stateCoord actionCoord =
     (if js_lt prevStateDistanceToWaypoint (Num 50) then True
      else let straightDistToWaypoint = calcDist env actionCoord waypoint in
        if js_lt straightDistToWaypoint (Num 50) then True
        else js_lt prevStateDistanceToWaypoint (Num 80) \<and> js_lt straightDistToWaypoint (Num 80))"

text \<open>\<open>distanceToRouteChange\<close> reads the recorded deviation from \<open>this.state\<close>.\<close>

definition distanceToRouteChange :: "TurnNavigationStoreState \<Rightarrow> number \<Rightarrow> bool" where
  "distanceToRouteChange this actionDistance =
     (if isNaN (distanceToRoute (instruction this)) then js_gt actionDistance (Num 50)
      else js_gt (Math_abs (js_sub (distanceToRoute (instruction this)) actionDistance)) (Num 50))"

definition synthesize :: "TurnNavigationStoreState \<Rightarrow> string \<Rightarrow> Effect list" where
  "synthesize this t = (if soundEnabled (settings this) then [Speak t] else [])"

subsection \<open>\<open>reduce\<close>, the branch of \<open>LocationUpdate\<close>\<close>

text \<open>
  The projection of the fix and the test of the waypoint; when the waypoint of a path of two
  waypoints is to be skipped and the initial path has more than two, both are taken again
  on the initial path (lines 316 to 342). The result is the path, the projection and the
  flag \<open>skipWaypoint\<close>.
\<close>

definition selectPath ::
  "Env \<Rightarrow> TurnNavigationStoreState \<Rightarrow> Path \<Rightarrow> Path \<Rightarrow> Coordinate
     \<Rightarrow> error + (Path \<times> CurrentInstruction \<times> bool)" where
  "selectPath env state initial active coord =
     (let instr = getCurrentInstruction env (instructions active) coord in
      case getWaypoint active (ci_nextWaypointIndex instr) of
        Inl e \<Rightarrow> Inl e
      | Inr waypoint \<Rightarrow>
         (let skip = skipWaypoint env (distanceToWaypoint (instruction state)) waypoint
                       (coordinate state) coord in
          if skip \<and> length (snapped_waypoints active) = 2
                  \<and> length (snapped_waypoints initial) > 2
          then (let instr' = getCurrentInstruction env (instructions initial) coord in
                case getWaypoint initial (ci_nextWaypointIndex instr') of
                  Inl e \<Rightarrow> Inl e
                | Inr waypoint' \<Rightarrow>
                    Inr (initial, instr',
                         skipWaypoint env (distanceToWaypoint (instruction state)) waypoint'
                           (coordinate state) coord))
          else Inr (active, instr, skip)))"

text \<open>The next waypoint becomes the destination, unless the end is reached (lines 345 to 348).\<close>

definition advanceWaypoint :: "Path \<Rightarrow> CurrentInstruction \<Rightarrow> bool \<Rightarrow> CurrentInstruction \<times> bool" where
  "advanceWaypoint path instr skip =
     (if skip then
        (if ci_nextWaypointIndex instr + 1 < int (length (snapped_waypoints path))
         then (instr\<lparr>ci_nextWaypointIndex := ci_nextWaypointIndex instr + 1\<rparr>, skip)
         else (instr, False))
      else (instr, skip))"

definition routingArgs ::
  "TurnNavigationStoreState \<Rightarrow> Coordinate \<Rightarrow> Coordinate \<Rightarrow> real \<Rightarrow> RoutingArgs" where
  "routingArgs state coord toCoordinate hdg =
     \<lparr>points = ((lng coord, lat coord), (lng toCoordinate, lat toCoordinate)),
      maxAlternativeRoutes = 0, args_heading = hdg, zoom = False,
      profile = activeProfile state, args_customModel = customModel state\<rparr>"

text \<open>
  The body of the branch that reroutes (lines 352 to 393): the request, if any, and the flag
  \<open>queriedAPI\<close>, which the returned state takes as \<open>rerouteInProgress\<close>.
\<close>

definition queryAPI ::
  "TurnNavigationStoreState \<Rightarrow> Path \<Rightarrow> CurrentInstruction \<Rightarrow> Coordinate \<Rightarrow> real
     \<Rightarrow> error + (bool \<times> Effect list)" where
  "queryAPI state path instr coord hdg =
     (if \<not> rerouteInProgress state then
        (case getWaypoint path (ci_nextWaypointIndex instr) of
           Inl e \<Rightarrow> Inl e
         | Inr toCoordinate \<Rightarrow> Inr (True, [Route (routingArgs state coord toCoordinate hdg)]))
      else Inr (False, []))"

definition reroute ::
  "TurnNavigationStoreState \<Rightarrow> Path \<Rightarrow> CurrentInstruction \<Rightarrow> Coordinate \<Rightarrow> real \<Rightarrow> real
     \<Rightarrow> error + (TurnNavigationStoreState \<times> Effect list)" where
  "reroute state path instr coord spd hdg =
     (case queryAPI state path instr coord hdg of
        Inl e \<Rightarrow> Inl e
      | Inr (queriedAPI, effects) \<Rightarrow>
          Inr (state\<lparr>rerouteInProgress := queriedAPI, heading := hdg, speed := spd,
                 coordinate := coord\<rparr>, effects))"

definition lastAnnounceDistance :: "number \<Rightarrow> number" where
  "lastAnnounceDistance avgSpeed =
     js_add (Num 10) (js_mul (js_mul (Num 2) (Math_round (js_div avgSpeed (Num 5)))) (Num 5))"

definition firstAnnounceDistance :: number where
  "firstAnnounceDistance = Num 1150"

definition nearAnnouncement :: "TNInstructionState \<Rightarrow> CurrentInstruction \<Rightarrow> number \<Rightarrow> bool" where
  "nearAnnouncement instructionState instr avgSpeed =
     (js_le (ci_distanceToTurn instr) (lastAnnounceDistance avgSpeed)
      \<and> (js_gt (distanceToTurn instructionState) (lastAnnounceDistance avgSpeed)
         \<or> js_neq (Num (of_int (ci_index instr))) (index instructionState)))"

definition farAnnouncement :: "TNInstructionState \<Rightarrow> CurrentInstruction \<Rightarrow> number \<Rightarrow> bool" where
  "farAnnouncement instructionState instr avgSpeed =
     (js_gt avgSpeed (Num 15)
      \<and> js_gt (ci_distanceToTurn instr) (js_add (lastAnnounceDistance avgSpeed) (Num 50))
      \<and> js_le (ci_distanceToTurn instr) firstAnnounceDistance
      \<and> (js_gt (distanceToTurn instructionState) firstAnnounceDistance
         \<or> js_neq (Num (of_int (ci_index instr))) (index instructionState)))"

definition inString :: "Env \<Rightarrow> number \<Rightarrow> string" where
  "inString env d =
     (if js_gt d (Num 800) then tr env ''in_km_singular'' []
      else tr env ''in_m'' [numberToString env (js_mul (Math_round (js_div d (Num 100))) (Num 100))])"

text \<open>The announcements of a committed fix (lines 408 to 432), in the order of the two calls.\<close>

definition announce ::
  "Env \<Rightarrow> TurnNavigationStoreState \<Rightarrow> TurnNavigationStoreState \<Rightarrow> CurrentInstruction
     \<Rightarrow> Instruction \<Rightarrow> number \<Rightarrow> Effect list" where
  "announce env this state instr nextInstruction avgSpeed =
     (if soundEnabled (settings state) then
        (if nearAnnouncement (instruction state) instr avgSpeed
         then synthesize this (instr_text nextInstruction) else [])
        @ (if farAnnouncement (instruction state) instr avgSpeed
           then synthesize this
                  (inString env (ci_distanceToTurn instr) @ '' '' @ instr_text nextInstruction)
           else [])
      else [])"

text \<open>The two snapshots, written by a committed fix and by an accepted reroute.\<close>

definition instructionSnapshot :: "CurrentInstruction \<Rightarrow> Instruction \<Rightarrow> TNInstructionState" where
  "instructionSnapshot instr nextInstruction =
     \<lparr>index = Num (of_int (ci_index instr)),
      distanceToTurn = ci_distanceToTurn instr,
      timeToEnd = ci_timeToEnd instr,
      distanceToEnd = ci_distanceToEnd instr,
      nextWaypointIndex = Num (of_int (ci_nextWaypointIndex instr)),
      distanceToWaypoint = ci_distanceToWaypoint instr,
      sign = Num (of_int (instr_sign nextInstruction)),
      instructionText = Some (street_name nextInstruction),
      distanceToRoute = ci_distanceToRoute instr\<rparr>"

definition pathDetailsSnapshot :: "number \<times> number \<times> string \<times> string \<Rightarrow> TNPathDetailsState" where
  "pathDetailsSnapshot d =
     (case d of (avgSpeed, maxSpeed', surface', roadClass') \<Rightarrow>
        \<lparr>maxSpeed = maxSpeed', estimatedAvgSpeed = Math_round avgSpeed,
         surface = Some surface', roadClass = Some roadClass'\<rparr>)"

definition commit ::
  "Env \<Rightarrow> TurnNavigationStoreState \<Rightarrow> TurnNavigationStoreState \<Rightarrow> Path
     \<Rightarrow> CurrentInstruction \<Rightarrow> Coordinate \<Rightarrow> real \<Rightarrow> real
     \<Rightarrow> error + (TurnNavigationStoreState \<times> Effect list)" where
  "commit env this state path instr coord spd hdg =
     (if ci_index instr < 0
      then Inl (Error ''Instruction should be valid if distanceToRoute is small'')
      else (let d = getCurrentDetails env path coord (details path) in
            case js_nth (instructions path) (ci_index instr) of
              None \<Rightarrow> Inl TypeError
            | Some nextInstruction \<Rightarrow>
                Inr (state\<lparr>showUI := True, heading := hdg, speed := spd, coordinate := coord,
                       instruction := instructionSnapshot instr nextInstruction,
                       pathDetails := pathDetailsSnapshot d\<rparr>,
                     announce env this state instr nextInstruction (fst d))))"

definition locationUpdate ::
  "Env \<Rightarrow> TurnNavigationStoreState \<Rightarrow> TurnNavigationStoreState \<Rightarrow> Coordinate \<Rightarrow> real \<Rightarrow> real
     \<Rightarrow> error + (TurnNavigationStoreState \<times> Effect list)" where
  "locationUpdate env this state coord spd hdg =
     (case initialPath state of
        None \<Rightarrow> Inl (Error ''initialPath must not be null'')
      | Some initial \<Rightarrow>
     (case activePath state of
        None \<Rightarrow> Inl (Error ''activePath must not be null'')
      | Some active \<Rightarrow>
     (if activeProfile state = [] then Inr (this, [])
      else
     (case selectPath env state initial active coord of
        Inl e \<Rightarrow> Inl e
      | Inr (path, instr0, skip0) \<Rightarrow>
         (case advanceWaypoint path instr0 skip0 of (instr, skip) \<Rightarrow>
            if (showUI state \<and> distanceToRouteChange this (ci_distanceToRoute instr)) \<or> skip
            then reroute state path instr coord spd hdg
            else commit env this state path instr coord spd hdg)))))"

subsection \<open>\<open>reduce\<close>, the branch of \<open>TurnNavigationRerouting\<close>\<close>

definition rerouting ::
  "Env \<Rightarrow> TurnNavigationStoreState \<Rightarrow> Path \<Rightarrow> error + (TurnNavigationStoreState \<times> Effect list)" where
  "rerouting env state path =
     (let instr = getCurrentInstruction env (instructions path) (coordinate state) in
      if ci_index instr < 0 then Inr (state\<lparr>rerouteInProgress := False\<rparr>, [])
      else (case js_nth (instructions path) (ci_index instr) of
              None \<Rightarrow> Inl TypeError
            | Some nextInstruction \<Rightarrow>
               (let d = getCurrentDetails env path (coordinate state) (details path) in
                Inr (state\<lparr>activePath := Some path, rerouteInProgress := False,
                       instruction := instructionSnapshot instr nextInstruction,
                       pathDetails := pathDetailsSnapshot d\<rparr>, []))))"

subsection \<open>\<open>reduce\<close>\<close>

definition mergeSettings :: "TNSettingsState \<Rightarrow> SettingsUpdate \<Rightarrow> TNSettingsState" where
  "mergeSettings s u =
     \<lparr>fakeGPS = (case upd_fakeGPS u of None \<Rightarrow> fakeGPS s | Some b \<Rightarrow> b),
      acceptedRisk = (case upd_acceptedRisk u of None \<Rightarrow> acceptedRisk s | Some b \<Rightarrow> b),
      soundEnabled = (case upd_soundEnabled u of None \<Rightarrow> soundEnabled s | Some b \<Rightarrow> b)\<rparr>"

text \<open>
  \<open>reduce this state action\<close>: \<open>this\<close> is the state the store holds (\<open>this.state\<close>), \<open>state\<close>
  the argument. A thrown error is \<open>Inl\<close>; otherwise the result is the returned state with
  the effects of the call, in their order.
\<close>

fun reduce ::
  "Env \<Rightarrow> TurnNavigationStoreState \<Rightarrow> TurnNavigationStoreState \<Rightarrow> Action
     \<Rightarrow> error + (TurnNavigationStoreState \<times> Effect list)" where
  "reduce env this state TurnNavigationStop =
     Inr (state\<lparr>showUI := False, started := False, speed := 0, heading := 0\<rparr>, [StopTracking])"
| "reduce env this state (TurnNavigationSettingsUpdate u) =
     Inr (state\<lparr>settings := mergeSettings (settings state) u\<rparr>, [])"
| "reduce env this state (TurnNavigationStart enableFullscreen) =
     Inr (state\<lparr>started := True\<rparr>,
          [if fakeGPS (settings state) then InitFake else InitReal enableFullscreen])"
| "reduce env this state (SelectMapLayer layer) =
     (if \<not> started this then Inr (state\<lparr>oldTiles := layer\<rparr>, []) else Inr (state, []))"
| "reduce env this state TurnNavigationReroutingFailed =
     Inr (state\<lparr>rerouteInProgress := False\<rparr>, [])"
| "reduce env this state (SetCustomModel model valid) =
     Inr (state\<lparr>customModel := (if valid then model else None)\<rparr>, [])"
| "reduce env this state (SetVehicleProfile name) =
     Inr (state\<lparr>activeProfile := name\<rparr>, [])"
| "reduce env this state (SetSelectedPath path) =
     (if showUI state then Inl (Error ''Changing path while turn navigation should not happen'')
      else Inr (state\<lparr>initialPath := Some path, activePath := Some path,
                  instruction := emptyInstruction, pathDetails := emptyPathDetails\<rparr>, []))"
| "reduce env this state (LocationUpdate coord spd hdg) =
     locationUpdate env this state coord spd hdg"
| "reduce env this state (TurnNavigationRerouting path) = rerouting env state path"
| "reduce env this state OtherAction = Inr (state, [])"

text \<open>
  The handlers of the promise \<open>this.api.route(args)\<close>: the action each dispatches, and the
  texts it hands to \<open>this.synthesize\<close> afterwards.
\<close>

datatype RouteResult = Resolved "Path list" | Rejected

fun routeHandler :: "Env \<Rightarrow> RouteResult \<Rightarrow> Action \<times> string list" where
  "routeHandler env (Resolved (p # ps)) = (TurnNavigationRerouting p, [tr env ''reroute'' []])"
| "routeHandler env (Resolved []) = (TurnNavigationReroutingFailed, [])"
| "routeHandler env Rejected = (TurnNavigationReroutingFailed, [])"

text \<open>
  Modelled from the spec: \<open>receive\<close> of the base class \<open>Store\<close>, which is not among the
  sources. All transitions run one after the other on one queue, so the store calls
  \<open>reduce\<close> with the state it holds.
\<close>

definition receive ::
  "Env \<Rightarrow> TurnNavigationStoreState \<Rightarrow> Action \<Rightarrow> error + (TurnNavigationStoreState \<times> Effect list)" where
  "receive env state action = reduce env state state action"

text \<open>
  Modelled from the spec: the state the store holds after an action, the base class
  \<open>Store\<close> not being among the sources. An error is fatal to the operation only: the
  store keeps the state it had.
\<close>

definition nextState :: "Env \<Rightarrow> TurnNavigationStoreState \<Rightarrow> Action \<Rightarrow> TurnNavigationStoreState" where
  "nextState env state action =
     (case receive env state action of Inl e \<Rightarrow> state | Inr (state', effects) \<Rightarrow> state')"

text \<open>The effects of an action; \<open>reduce\<close> throws before it has any.\<close>

definition effectsOf :: "Env \<Rightarrow> TurnNavigationStoreState \<Rightarrow> Action \<Rightarrow> Effect list" where
  "effectsOf env state action =
     (case receive env state action of Inl e \<Rightarrow> [] | Inr (state', effects) \<Rightarrow> effects)"

text \<open>The states the store goes through on a list of actions, the first one included.\<close>

fun states :: "Env \<Rightarrow> TurnNavigationStoreState \<Rightarrow> Action list \<Rightarrow> TurnNavigationStoreState list" where
  "states env state [] = [state]"
| "states env state (a # as) = state # states env (nextState env state a) as"

text \<open>The effects of each action of the list, in turn.\<close>

fun effectsTrace :: "Env \<Rightarrow> TurnNavigationStoreState \<Rightarrow> Action list \<Rightarrow> Effect list list" where
  "effectsTrace env state [] = []"
| "effectsTrace env state (a # as) =
     effectsOf env state a # effectsTrace env (nextState env state a) as"

section \<open>Counting along a run\<close>

text \<open>How often a list of flags goes from false to true.\<close>

fun rises :: "bool list \<Rightarrow> nat" where
  "rises (a # b # xs) = (if \<not> a \<and> b then 1 else 0) + rises (b # xs)"
| "rises xs = 0"

definition isRoute :: "Effect \<Rightarrow> bool" where
  "isRoute e = (case e of Route args \<Rightarrow> True | _ \<Rightarrow> False)"

text \<open>The routing requests among the effects.\<close>

definition routeRequests :: "Effect list \<Rightarrow> Effect list" where
  "routeRequests effects = filter isRoute effects"

section \<open>A small world to run the store in\<close>

text \<open>
  A stand-in for the geometry library, with distances taken along the axes. A list of
  instructions is projected on the point of its first instruction (the turn ahead) and on the
  point of its last one (the destination): the fix is on the route, at instruction 0, when
  the turn is at most 500 away; the deviation is the offset in latitude from the turn.
\<close>

definition manhattan :: "Coordinate \<Rightarrow> real \<times> real \<Rightarrow> real" where
  "manhattan c p = \<bar>lng c - fst p\<bar> + \<bar>lat c - snd p\<bar>"

definition turnPoint :: "Instruction \<Rightarrow> real \<times> real" where
  "turnPoint i = (case instr_points i of [] \<Rightarrow> (0, 0) | p # ps \<Rightarrow> p)"

definition stubInstruction :: "Instruction list \<Rightarrow> Coordinate \<Rightarrow> CurrentInstruction" where
  "stubInstruction instrs c =
     (case instrs of
        [] \<Rightarrow> \<lparr>ci_index = - 1, ci_distanceToTurn = NaN, ci_timeToEnd = NaN,
               ci_distanceToEnd = NaN, ci_nextWaypointIndex = 1, ci_distanceToWaypoint = NaN,
               ci_distanceToRoute = NaN\<rparr>
      | i # rest \<Rightarrow>
          \<lparr>ci_index = (if manhattan c (turnPoint i) \<le> 500 then 0 else - 1),
           ci_distanceToTurn = Num (manhattan c (turnPoint i)),
           ci_timeToEnd = Num 0,
           ci_distanceToEnd = Num (manhattan c (turnPoint (last instrs))),
           ci_nextWaypointIndex = 1,
           ci_distanceToWaypoint = Num (manhattan c (turnPoint (last instrs))),
           ci_distanceToRoute = Num \<bar>lat c - snd (turnPoint i)\<bar>\<rparr>)"

definition stubDetails :: "Path \<Rightarrow> Coordinate \<Rightarrow> Details \<Rightarrow> number \<times> number \<times> string \<times> string" where
  "stubDetails path c d =
     (case average_speed d of [] \<Rightarrow> NaN | x # xs \<Rightarrow> Num (snd (snd x)),
      Undefined, ''asphalt'', ''primary'')"

definition stubEnv :: Env where
  "stubEnv = \<lparr>calcDist = (\<lambda>a b. Num (manhattan a (lng b, lat b))),
     getCurrentInstruction = stubInstruction,
     getCurrentDetails = stubDetails,
     tr = (\<lambda>key args. key @ concat args),
     numberToString = (\<lambda>n. ''N'')\<rparr>"

definition turnLeft :: "real \<times> real \<Rightarrow> Instruction" where
  "turnLeft p = \<lparr>street_name = ''Main St'', instr_text = ''Turn left'', instr_sign = - 2,
     instr_points = [p]\<rparr>"

definition arrive :: "real \<times> real \<Rightarrow> Instruction" where
  "arrive p = \<lparr>street_name = [], instr_text = ''Arrive'', instr_sign = 4, instr_points = [p]\<rparr>"

definition speeds :: "real \<Rightarrow> Details" where
  "speeds v = \<lparr>average_speed = [(0, 1, v)], max_speed = [], surface_detail = [],
     road_class = []\<rparr>"

text \<open>A route of two waypoints, with a turn at the origin, driven at 25.\<close>

definition pathA :: Path where
  "pathA = \<lparr>distance = 2000, instructions = [turnLeft (0, 0), arrive (- 1000, 0)],
     snapped_waypoints = [(1000, 0), (- 1000, 0)], details = speeds 25\<rparr>"

text \<open>A route whose turn is far from the origin.\<close>

definition pathFar :: Path where
  "pathFar = \<lparr>distance = 18600, instructions = [turnLeft (9000, 0), arrive (- 1000, 0)],
     snapped_waypoints = [(400, 100), (- 1000, 0)], details = speeds 25\<rparr>"

text \<open>A route of three waypoints and a leg of two from its second waypoint to its last.\<close>

definition pathVia :: Path where
  "pathVia = \<lparr>distance = 3000, instructions = [turnLeft (1600, 0), arrive (2000, 0)],
     snapped_waypoints = [(- 1000, 0), (1000, 0), (2000, 0)], details = speeds 25\<rparr>"

definition pathLeg :: Path where
  "pathLeg = \<lparr>distance = 1010, instructions = [turnLeft (1100, 0), arrive (2000, 0)],
     snapped_waypoints = [(990, 0), (2000, 0)], details = speeds 25\<rparr>"

definition fixAt :: "real \<Rightarrow> real \<Rightarrow> Action" where
  "fixAt x y = LocationUpdate \<lparr>lat = y, lng = x\<rparr> 4 0"

text \<open>The store after a path and a profile are chosen and navigation is started.\<close>

definition ready :: "Path \<Rightarrow> TurnNavigationStoreState" where
  "ready path = (initialState False ''tiles'')\<lparr>started := True, initialPath := Some path,
     activePath := Some path, activeProfile := ''car''\<rparr>"

text \<open>Guidance on \<open>pathA\<close> after a fix 400 before the turn, on the route.\<close>

definition guiding :: TurnNavigationStoreState where
  "guiding = nextState stubEnv (ready pathA) (fixAt 400 0)"

text \<open>A route whose destination is 100 past its turn.\<close>

definition pathShort :: Path where
  "pathShort = \<lparr>distance = 1100, instructions = [turnLeft (0, 0), arrive (- 100, 0)],
     snapped_waypoints = [(1000, 0), (- 100, 0)], details = speeds 25\<rparr>"

text \<open>The route \<open>pathA\<close> driven at 5, and guidance on it.\<close>

definition pathSlow :: Path where
  "pathSlow = \<lparr>distance = 2000, instructions = [turnLeft (0, 0), arrive (- 1000, 0)],
     snapped_waypoints = [(1000, 0), (- 1000, 0)], details = speeds 5\<rparr>"

definition guidingSlow :: TurnNavigationStoreState where
  "guidingSlow = nextState stubEnv (ready pathSlow) (fixAt 400 0)"

definition approaching :: TurnNavigationStoreState where
  "approaching = nextState stubEnv guidingSlow (fixAt 30 0)"

text \<open>Guidance on \<open>pathA\<close> after a fix 100 off the route: a request is under way.\<close>

definition awaiting :: TurnNavigationStoreState where
  "awaiting = nextState stubEnv guiding (fixAt 400 100)"

text \<open>Guidance on \<open>pathA\<close>, stopped.\<close>

definition stopped :: TurnNavigationStoreState where
  "stopped = nextState stubEnv guiding TurnNavigationStop"

text \<open>
  On \<open>pathVia\<close>, a fix near the second waypoint asks for a route to the third, and the
  answer \<open>pathLeg\<close> is taken as the active path.
\<close>

definition onLeg :: TurnNavigationStoreState where
  "onLeg = nextState stubEnv (nextState stubEnv (ready pathVia) (fixAt 990 0))
     (TurnNavigationRerouting pathLeg)"

text \<open>
  The same world with a geometry library that knows the deviation only within 300 of the
  turn and gives \<open>NaN\<close> farther away; guidance on \<open>pathA\<close> then starts with no deviation
  recorded.
\<close>

definition lateDeviation :: Env where
  "lateDeviation = stubEnv\<lparr>getCurrentInstruction := (\<lambda>instrs c.
     if js_le (ci_distanceToTurn (stubInstruction instrs c)) (Num 300)
     then stubInstruction instrs c
     else (stubInstruction instrs c)\<lparr>ci_distanceToRoute := NaN\<rparr>)\<rparr>"

definition unsure :: TurnNavigationStoreState where
  "unsure = nextState lateDeviation (ready pathA) (fixAt 400 0)"

text \<open>The doubles next to 0.1 and to 50.1.\<close>

definition double_0_1 :: real where
  "double_0_1 = 3602879701896397 / 36028797018963968"

definition double_50_1 :: real where
  "double_50_1 = 7050948166601933 / 140737488355328"

section \<open>Evaluation\<close>

lemmas double_defs = toDouble_def exponent_def pow2_def roundHalfEven_def expUp.simps
  expDown.simps Let_def

lemma toDouble_zero: "toDouble 0 = 0"
  by (simp add: toDouble_def)

lemma toDouble_minus_100: "toDouble (- 100) = - 100"
  by (simp add: double_defs)

text \<open>The two literals are doubles, and their difference rounds to -50.\<close>

lemma toDouble_literals:
  "toDouble (1 / 10) = double_0_1" "toDouble (501 / 10) = double_50_1"
  "toDouble (double_0_1 - double_50_1) = - 50" "50 < \<bar>double_0_1 - double_50_1\<bar>"
  by (simp_all add: double_defs double_0_1_def double_50_1_def)

lemmas js_defs = js_lt_def js_le_def js_gt_def js_neq_def isNaN_def js_arith_def js_add_def
  js_sub_def js_mul_def js_div_def Math_abs_def Math_round_def js_nth_def toDouble_zero
  toDouble_minus_100

lemmas world_defs = stubEnv_def stubInstruction_def stubDetails_def manhattan_def turnPoint_def
  turnLeft_def arrive_def speeds_def pathA_def pathFar_def pathVia_def pathLeg_def
  pathShort_def pathSlow_def fixAt_def ready_def initialState_def emptyInstruction_def
  emptyPathDetails_def

lemmas store_defs = receive_def nextState_def effectsOf_def locationUpdate_def selectPath_def
  getWaypoint_def skipWaypoint_def advanceWaypoint_def distanceToRouteChange_def reroute_def
  queryAPI_def routingArgs_def commit_def announce_def nearAnnouncement_def
  farAnnouncement_def lastAnnounceDistance_def firstAnnounceDistance_def inString_def
  synthesize_def instructionSnapshot_def pathDetailsSnapshot_def rerouting_def
  mergeSettings_def

lemma guiding_eq:
  "guiding = (ready pathA)\<lparr>showUI := True, coordinate := \<lparr>lat = 0, lng = 400\<rparr>, speed := 4,
     heading := 0,
     instruction := \<lparr>index = Num 0, distanceToTurn = Num 400, timeToEnd = Num 0,
       distanceToEnd = Num 1400, nextWaypointIndex = Num 1, distanceToWaypoint = Num 1400,
       sign = Num (- 2), instructionText = Some ''Main St'', distanceToRoute = Num 0\<rparr>,
     pathDetails := \<lparr>maxSpeed = Undefined, estimatedAvgSpeed = Num 25,
       surface = Some ''asphalt'', roadClass = Some ''primary''\<rparr>\<rparr>"
  by (simp add: guiding_def world_defs store_defs js_defs)

lemma guiding_showUI: "showUI guiding"
  by (simp add: guiding_eq)

lemma awaiting_eq:
  "awaiting = guiding\<lparr>rerouteInProgress := True, heading := 0, speed := 4,
     coordinate := \<lparr>lat = 100, lng = 400\<rparr>\<rparr>"
  by (simp add: awaiting_def guiding_eq world_defs store_defs js_defs)

lemma stopped_eq:
  "stopped = guiding\<lparr>showUI := False, started := False, speed := 0, heading := 0\<rparr>"
  by (simp add: stopped_def nextState_def receive_def)

text \<open>The state \<open>ready\<close> is where the constructed store gets by three actions.\<close>

lemma ready_reached:
  "last (states env (initialState False ''tiles'')
     [SetSelectedPath p, SetVehicleProfile ''car'', TurnNavigationStart False]) = ready p"
  by (simp add: nextState_def receive_def ready_def initialState_def)

lemma ready_fields:
  "initialPath (ready p) = Some p" "activePath (ready p) = Some p"
  "activeProfile (ready p) \<noteq> []" "\<not> showUI (ready p)" "\<not> rerouteInProgress (ready p)"
  "isNaN (distanceToRoute (instruction (ready p)))"
  by (simp_all add: ready_def initialState_def emptyInstruction_def isNaN_def)

section \<open>The branches of a fix\<close>

lemma locationUpdate_branches:
  assumes "initialPath state = Some initial" and "activePath state = Some active"
    and "activeProfile state \<noteq> []"
    and "selectPath env state initial active c = Inr (path, instr0, skip0)"
    and "advanceWaypoint path instr0 skip0 = (instr, skip)"
  shows "receive env state (LocationUpdate c spd hdg) =
     (if (showUI state \<and> distanceToRouteChange state (ci_distanceToRoute instr)) \<or> skip
      then reroute state path instr c spd hdg
      else commit env state state path instr c spd hdg)"
  using assms by (simp add: receive_def locationUpdate_def)

lemma announce_no_route: "routeRequests (announce env this state instr ni avg) = []"
  by (simp add: announce_def synthesize_def routeRequests_def isRoute_def)

lemma commit_no_route:
  "commit env this state path instr c spd hdg = Inr (state', effects) \<Longrightarrow> routeRequests effects = []"
  by (auto simp: commit_def Let_def announce_no_route split: if_splits option.splits)

lemma commit_showUI:
  "commit env this state path instr c spd hdg = Inr (state', effects) \<Longrightarrow>
     showUI state' \<and> 0 \<le> ci_index instr"
  by (auto simp: commit_def Let_def split: if_splits option.splits)

lemma reroute_flips:
  "reroute state path instr c spd hdg = Inr (state', effects) \<Longrightarrow>
     rerouteInProgress state' = (\<not> rerouteInProgress state) \<and> showUI state' = showUI state"
  by (auto simp: reroute_def queryAPI_def split: sum.splits if_splits)

lemma reroute_requests:
  assumes "0 \<le> ci_nextWaypointIndex instr"
    and "ci_nextWaypointIndex instr < int (length (snapped_waypoints path))"
  shows "\<exists>state' effects. reroute state path instr c spd hdg = Inr (state', effects)
     \<and> (routeRequests effects \<noteq> []) = (\<not> rerouteInProgress state)"
  using assms
  by (simp add: reroute_def queryAPI_def getWaypoint_def js_nth_def routeRequests_def isRoute_def)

lemma selectPath_waypoint:
  assumes "selectPath env state initial active c = Inr (path, instr0, skip0)"
  shows "0 \<le> ci_nextWaypointIndex instr0
    \<and> ci_nextWaypointIndex instr0 < int (length (snapped_waypoints path))"
  using assms
  by (auto simp: selectPath_def Let_def getWaypoint_def js_nth_def
      split: sum.splits if_splits option.splits)

lemma selectPath_choice:
  assumes "selectPath env state initial active c = Inr (path, instr0, skip0)"
  shows "(path = active
          \<or> (path = initial \<and> length (snapped_waypoints active) = 2
              \<and> 2 < length (snapped_waypoints initial)
              \<and> (\<exists>waypoint.
                    getWaypoint active
                      (ci_nextWaypointIndex (getCurrentInstruction env (instructions active) c))
                      = Inr waypoint
                    \<and> skipWaypoint env (distanceToWaypoint (instruction state)) waypoint
                        (coordinate state) c)))
    \<and> instr0 = getCurrentInstruction env (instructions path) c"
  using assms
  by (auto simp: selectPath_def Let_def split: sum.splits if_splits)

lemma advanceWaypoint_index:
  "advanceWaypoint path instr0 skip0 = (instr, skip) \<Longrightarrow>
     ci_index instr = ci_index instr0 \<and> ci_distanceToRoute instr = ci_distanceToRoute instr0
     \<and> ci_distanceToTurn instr = ci_distanceToTurn instr0"
  by (auto simp: advanceWaypoint_def split: if_splits)

lemma advanceWaypoint_range:
  assumes "advanceWaypoint path instr0 skip0 = (instr, skip)"
    and "0 \<le> ci_nextWaypointIndex instr0"
    and "ci_nextWaypointIndex instr0 < int (length (snapped_waypoints path))"
  shows "0 \<le> ci_nextWaypointIndex instr
    \<and> ci_nextWaypointIndex instr < int (length (snapped_waypoints path))"
  using assms by (auto simp: advanceWaypoint_def split: if_splits)

text \<open>While the flag is set, a fix sends no request.\<close>

lemma no_request_while_flag_set:
  assumes "rerouteInProgress state"
  shows "routeRequests (effectsOf env state (LocationUpdate c spd hdg)) = []"
proof (cases "receive env state (LocationUpdate c spd hdg)")
  case (Inl e)
  then show ?thesis by (simp add: effectsOf_def routeRequests_def)
next
  case (Inr r)
  obtain state' effects where r: "r = (state', effects)" by (cases r) auto
  have "routeRequests effects = []"
    using Inr r assms commit_no_route [of env state state _ _ c spd hdg state' effects]
    by (auto simp: receive_def locationUpdate_def reroute_def queryAPI_def routeRequests_def
        split: option.splits if_splits sum.splits prod.splits)
  with Inr r show ?thesis by (simp add: effectsOf_def)
qed

section \<open>Requests under way\<close>

text \<open>
  C1. At most one reroute is under way: no second request is sent until the first is
  resolved, and \<open>rerouteInProgress\<close> stays true from the request to its resolution. The
  store is run here on three fixes, each 100 off the route, with no resolution between
  them: the first sends a request and sets the flag, the second clears the flag, and the
  third sends a second request.
\<close>

theorem second_request_before_resolution:
  "map rerouteInProgress (states stubEnv guiding [fixAt 300 100, fixAt 200 100, fixAt 100 100])
     = [False, True, False, True]
   \<and> map (length \<circ> routeRequests)
       (effectsTrace stubEnv guiding [fixAt 300 100, fixAt 200 100, fixAt 100 100]) = [1, 0, 1]"
  by (simp add: guiding_eq world_defs store_defs js_defs routeRequests_def isRoute_def)

section \<open>The waypoint test\<close>

text \<open>
  C2. For every previous distance to the waypoint \<open>p\<close>, waypoint \<open>w\<close> and fix \<open>c\<close>, with the
  straight distance \<open>s = calcDist c w\<close>: \<open>skipWaypoint\<close> is true if and only if \<open>p < 50\<close>, or
  \<open>s < 50\<close>, or \<open>p < 80\<close> and \<open>s < 80\<close>. So \<open>p = 40\<close> gives true, \<open>p = 100\<close> with
  \<open>s = 60\<close> gives false, and \<open>p = 70\<close> with \<open>s = 75\<close> gives true.
\<close>

theorem skipWaypoint_thresholds:
  "skipWaypoint env p w sc c =
     (js_lt p (Num 50) \<or> js_lt (calcDist env c w) (Num 50)
      \<or> (js_lt p (Num 80) \<and> js_lt (calcDist env c w) (Num 80)))
   \<and> skipWaypoint env (Num 40) w sc c
   \<and> (calcDist env c1 w1 = Num 60 \<longrightarrow> \<not> skipWaypoint env (Num 100) w1 sc1 c1)
   \<and> (calcDist env c2 w2 = Num 75 \<longrightarrow> skipWaypoint env (Num 70) w2 sc2 c2)"
  by (simp add: skipWaypoint_def Let_def js_lt_def)

theorem skipWaypoint_thresholds_witness:
  "calcDist stubEnv \<lparr>lat = 0, lng = 60\<rparr> \<lparr>lat = 0, lng = 0\<rparr> = Num 60
   \<and> \<not> skipWaypoint stubEnv (Num 100) \<lparr>lat = 0, lng = 0\<rparr> \<lparr>lat = 0, lng = 70\<rparr> \<lparr>lat = 0, lng = 60\<rparr>
   \<and> calcDist stubEnv \<lparr>lat = 0, lng = 75\<rparr> \<lparr>lat = 0, lng = 0\<rparr> = Num 75
   \<and> skipWaypoint stubEnv (Num 70) \<lparr>lat = 0, lng = 0\<rparr> \<lparr>lat = 0, lng = 90\<rparr> \<lparr>lat = 0, lng = 75\<rparr>"
  using skipWaypoint_thresholds [of stubEnv "Num 100" "\<lparr>lat = 0, lng = 0\<rparr>" "\<lparr>lat = 0, lng = 70\<rparr>"
      "\<lparr>lat = 0, lng = 60\<rparr>" "\<lparr>lat = 0, lng = 60\<rparr>" "\<lparr>lat = 0, lng = 0\<rparr>" "\<lparr>lat = 0, lng = 70\<rparr>"
      "\<lparr>lat = 0, lng = 75\<rparr>" "\<lparr>lat = 0, lng = 0\<rparr>" "\<lparr>lat = 0, lng = 90\<rparr>"]
  by (simp add: stubEnv_def manhattan_def js_lt_def)

section \<open>When a fix reroutes\<close>

text \<open>Rounding takes no difference of at most 50 above 50.\<close>

lemma pow2_pos: "0 < pow2 e"
  by (simp add: pow2_def)

lemma pow2_mono: "e \<le> k \<Longrightarrow> pow2 e \<le> pow2 k"
proof -
  assume h: "e \<le> k"
  have p: "pow2 i = 2 powr (real_of_int i)" for i
    by (simp add: pow2_def powr_realpow [symmetric] powr_minus divide_simps)
  show ?thesis using h by (simp add: p)
qed

lemma expUp_le:
  "e \<le> k \<Longrightarrow> a < pow2 (k + 1) \<Longrightarrow> expUp a e \<le> k"
proof (induction a e rule: expUp.induct)
  case (1 a e)
  show ?case
  proof (cases "1023 \<le> e \<or> a < pow2 (e + 1)")
    case True
    then show ?thesis using "1.prems" by (simp add: expUp.simps [of a e])
  next
    case False
    then have "pow2 (e + 1) \<le> a" by simp
    then have "\<not> k + 1 \<le> e + 1"
      using "1.prems"(2) pow2_mono [of "k + 1" "e + 1"] by auto
    then have "e + 1 \<le> k" by simp
    then show ?thesis
      using "1.IH" [OF False] "1.prems"(2) False by (simp add: expUp.simps [of a e])
  qed
qed

lemma expDown_le: "expDown a e \<le> e"
proof (induction a e rule: expDown.induct)
  case (1 a e)
  show ?case
  proof (cases "e \<le> - 1022 \<or> pow2 e \<le> a")
    case True
    then show ?thesis by (simp add: expDown.simps [of a e])
  next
    case False
    then show ?thesis using "1.IH" [OF False] by (simp add: expDown.simps [of a e])
  qed
qed

lemma roundHalfEven_le: "m \<le> of_int n \<Longrightarrow> roundHalfEven m \<le> n"
  by (auto simp: roundHalfEven_def Let_def) linarith+

lemma roundHalfEven_ge: "of_int n \<le> m \<Longrightarrow> n \<le> roundHalfEven m"
proof -
  assume "of_int n \<le> m"
  then have "n \<le> \<lfloor>m\<rfloor>" by (simp add: le_floor_iff)
  then show ?thesis by (simp add: roundHalfEven_def Let_def)
qed

lemma toDouble_within_50:
  assumes "\<bar>x\<bar> \<le> 50"
  shows "\<bar>toDouble x\<bar> \<le> 50"
proof (cases "x = 0")
  case True
  then show ?thesis by (simp add: toDouble_def)
next
  case False
  define e where "e = exponent \<bar>x\<bar>"
  define q where "q = pow2 (e - 52)"
  have "\<bar>x\<bar> < pow2 (5 + 1)" using assms by (simp add: pow2_def)
  then have e5: "e \<le> 5"
    using expUp_le [of 0 5 "\<bar>x\<bar>"] expDown_le [of "\<bar>x\<bar>" "- 1"]
    by (auto simp: e_def exponent_def)
  define n :: int where "n = 50 * 2 ^ nat (52 - e)"
  have q: "q = 1 / 2 ^ nat (52 - e)" using e5 by (simp add: q_def pow2_def)
  have qpos: "0 < q" by (simp add: q_def pow2_pos)
  have n: "of_int n * q = 50" by (simp add: n_def q)
  have "x / q \<le> of_int n" "of_int (- n) \<le> x / q"
    using assms qpos n by (auto simp: field_simps abs_le_iff)
  then have "roundHalfEven (x / q) \<le> n" "- n \<le> roundHalfEven (x / q)"
    using roundHalfEven_le roundHalfEven_ge by blast+
  then have "\<bar>of_int (roundHalfEven (x / q)) :: real\<bar> \<le> of_int n" by linarith
  then have "\<bar>q * of_int (roundHalfEven (x / q))\<bar> \<le> q * of_int n"
    using qpos by (simp add: abs_mult)
  then show ?thesis
    using False n
    by (simp add: toDouble_def Let_def e_def [symmetric] q_def [symmetric] mult.commute)
qed

lemma unsure_eq:
  "unsure = guiding\<lparr>instruction := (instruction guiding)\<lparr>distanceToRoute := NaN\<rparr>\<rparr>"
  by (simp add: unsure_def lateDeviation_def guiding_eq world_defs store_defs js_defs)

text \<open>
  With 0.1 recorded and a new deviation of 50.1 the machine's difference is 50, although the
  two doubles are more than 50 apart: the deviation has not changed.
\<close>

lemma deviation_of_rounded_difference:
  "\<not> distanceToRouteChange
       (guiding\<lparr>instruction := (instruction guiding)\<lparr>distanceToRoute := Num double_0_1\<rparr>\<rparr>)
       (Num double_50_1)"
  by (simp add: distanceToRouteChange_def js_defs toDouble_literals)

text \<open>
  C3. A fix whose projection succeeds takes the rerouting branch exactly when \<open>showUI\<close> is
  set and the deviation has changed, or the waypoint is skipped; with no request under
  way, that is exactly when it sends a routing request. The deviation has changed when
  the difference of the recorded and the new distance to the route, as the machine
  computes it (rounded to the nearest double), is above 50 in absolute value, and then the
  two distances are more than 50 apart; with no recorded value (\<open>isNaN\<close>) the new distance
  itself is compared with 50. A skip reroutes whatever \<open>showUI\<close> is.
\<close>

theorem reroute_trigger:
  assumes "initialPath state = Some initial" and "activePath state = Some active"
    and "activeProfile state \<noteq> []"
    and "selectPath env state initial active c = Inr (path, instr0, skip0)"
    and "advanceWaypoint path instr0 skip0 = (instr, skip)"
  shows "receive env state (LocationUpdate c spd hdg) =
      (if (showUI state \<and> distanceToRouteChange state (ci_distanceToRoute instr)) \<or> skip
       then reroute state path instr c spd hdg
       else commit env state state path instr c spd hdg)
    \<and> (\<not> rerouteInProgress state \<longrightarrow>
         (routeRequests (effectsOf env state (LocationUpdate c spd hdg)) \<noteq> []) =
         ((showUI state \<and> distanceToRouteChange state (ci_distanceToRoute instr)) \<or> skip))
    \<and> (distanceToRoute (instruction state) = Num p \<longrightarrow>
         distanceToRouteChange state (Num d) = (50 < \<bar>toDouble (p - d)\<bar>))
    \<and> (distanceToRoute (instruction state) = Num p \<and> distanceToRouteChange state (Num d) \<longrightarrow>
         50 < \<bar>p - d\<bar>)
    \<and> (isNaN (distanceToRoute (instruction state)) \<longrightarrow>
         distanceToRouteChange state (Num d) = (50 < d))"
proof (intro conjI impI)
  show "50 < \<bar>p - d\<bar>"
    if h: "distanceToRoute (instruction state) = Num p \<and> distanceToRouteChange state (Num d)"
  proof -
    from h have "50 < \<bar>toDouble (p - d)\<bar>"
      by (auto simp: distanceToRouteChange_def js_defs)
    then show ?thesis using toDouble_within_50 [of "p - d"] by linarith
  qed
  show r: "receive env state (LocationUpdate c spd hdg) =
      (if (showUI state \<and> distanceToRouteChange state (ci_distanceToRoute instr)) \<or> skip
       then reroute state path instr c spd hdg
       else commit env state state path instr c spd hdg)"
    by (rule locationUpdate_branches [OF assms])
  show "distanceToRouteChange state (Num d) = (50 < \<bar>toDouble (p - d)\<bar>)"
    if "distanceToRoute (instruction state) = Num p"
    using that by (simp add: distanceToRouteChange_def js_defs)
  show "distanceToRouteChange state (Num d) = (50 < d)"
    if "isNaN (distanceToRoute (instruction state))"
    using that by (simp add: distanceToRouteChange_def js_defs)
  assume idle: "\<not> rerouteInProgress state"
  let ?trigger = "(showUI state \<and> distanceToRouteChange state (ci_distanceToRoute instr)) \<or> skip"
  have range: "0 \<le> ci_nextWaypointIndex instr
      \<and> ci_nextWaypointIndex instr < int (length (snapped_waypoints path))"
    using advanceWaypoint_range [OF assms(5)] selectPath_waypoint [OF assms(4)] by simp
  show "(routeRequests (effectsOf env state (LocationUpdate c spd hdg)) \<noteq> []) = ?trigger"
  proof (cases ?trigger)
    case True
    obtain state' effects where "reroute state path instr c spd hdg = Inr (state', effects)"
      and "routeRequests effects \<noteq> []"
      using reroute_requests [of instr path state c spd hdg] range idle by auto
    with True r show ?thesis by (simp add: effectsOf_def)
  next
    case False
    then have c: "receive env state (LocationUpdate c spd hdg) =
        commit env state state path instr c spd hdg"
      using r by auto
    have "routeRequests (effectsOf env state (LocationUpdate c spd hdg)) = []"
      using c commit_no_route [of env state state path instr c spd hdg]
      by (cases "commit env state state path instr c spd hdg")
        (auto simp: effectsOf_def routeRequests_def)
    with False show ?thesis by simp
  qed
qed

text \<open>
  The theorem at three fixes with \<open>showUI\<close> set: with 0 recorded, a fix 100 off the route
  sends a request; with nothing recorded (\<open>NaN\<close>), a fix 60 off the route sends a request
  and a fix 40 off the route sends none.
\<close>

theorem reroute_trigger_witness:
  "showUI guiding \<and> \<not> rerouteInProgress guiding
   \<and> distanceToRoute (instruction guiding) = Num 0
   \<and> ci_distanceToRoute (stubInstruction (instructions pathA) \<lparr>lat = 100, lng = 300\<rparr>) = Num 100
   \<and> toDouble (0 - 100) = - 100
   \<and> distanceToRouteChange guiding (Num 100)
   \<and> routeRequests (effectsOf stubEnv guiding (fixAt 300 100)) \<noteq> []
   \<and> showUI unsure \<and> \<not> rerouteInProgress unsure
   \<and> isNaN (distanceToRoute (instruction unsure))
   \<and> ci_distanceToRoute (getCurrentInstruction lateDeviation (instructions pathA)
        \<lparr>lat = 60, lng = 200\<rparr>) = Num 60
   \<and> distanceToRouteChange unsure (Num 60)
   \<and> routeRequests (effectsOf lateDeviation unsure (fixAt 200 60)) \<noteq> []
   \<and> ci_distanceToRoute (getCurrentInstruction lateDeviation (instructions pathA)
        \<lparr>lat = 40, lng = 200\<rparr>) = Num 40
   \<and> \<not> distanceToRouteChange unsure (Num 40)
   \<and> routeRequests (effectsOf lateDeviation unsure (fixAt 200 40)) = []"
proof -
  let ?far = "stubInstruction (instructions pathA) \<lparr>lat = 100, lng = 300\<rparr>"
  let ?at60 = "getCurrentInstruction lateDeviation (instructions pathA) \<lparr>lat = 60, lng = 200\<rparr>"
  let ?at40 = "getCurrentInstruction lateDeviation (instructions pathA) \<lparr>lat = 40, lng = 200\<rparr>"
  have a: "selectPath stubEnv guiding pathA pathA \<lparr>lat = 100, lng = 300\<rparr> =
      Inr (pathA, ?far, False)"
    by (simp add: guiding_eq selectPath_def getWaypoint_def skipWaypoint_def world_defs js_defs)
  have b: "advanceWaypoint pathA i False = (i, False)" for i
    by (simp add: advanceWaypoint_def)
  have c: "initialPath guiding = Some pathA" "activePath guiding = Some pathA"
    "activeProfile guiding \<noteq> []" "showUI guiding" "\<not> rerouteInProgress guiding"
    "distanceToRoute (instruction guiding) = Num 0"
    by (simp_all add: guiding_eq ready_def initialState_def)
  have d: "ci_distanceToRoute ?far = Num 100"
    by (simp add: world_defs)
  have u: "initialPath unsure = Some pathA" "activePath unsure = Some pathA"
    "activeProfile unsure \<noteq> []" "showUI unsure" "\<not> rerouteInProgress unsure"
    "isNaN (distanceToRoute (instruction unsure))"
    by (simp_all add: unsure_eq guiding_eq ready_def initialState_def isNaN_def)
  have e: "selectPath lateDeviation unsure pathA pathA \<lparr>lat = 60, lng = 200\<rparr> =
      Inr (pathA, ?at60, False)"
    by (simp add: unsure_eq guiding_eq lateDeviation_def selectPath_def getWaypoint_def
        skipWaypoint_def world_defs js_defs)
  have f: "selectPath lateDeviation unsure pathA pathA \<lparr>lat = 40, lng = 200\<rparr> =
      Inr (pathA, ?at40, False)"
    by (simp add: unsure_eq guiding_eq lateDeviation_def selectPath_def getWaypoint_def
        skipWaypoint_def world_defs js_defs)
  have g: "ci_distanceToRoute ?at60 = Num 60" "ci_distanceToRoute ?at40 = Num 40"
    by (simp_all add: lateDeviation_def world_defs js_defs)
  have t: "toDouble (0 - 100) = - 100"
    by (simp add: toDouble_minus_100)
  show ?thesis
    using reroute_trigger [OF c(1) c(2) c(3) a b, of 4 0 0 100]
      reroute_trigger [OF u(1) u(2) u(3) e b, of 4 0 0 60]
      reroute_trigger [OF u(1) u(2) u(3) f b, of 4 0 0 40] c d u g t
    by (auto simp: fixAt_def)
qed

section \<open>The resolution of a request\<close>

text \<open>
  C4, as the claim states it: a request resolved with at least one path replaces
  \<open>activePath\<close> by the first. Here the request sent from \<open>awaiting\<close> is resolved with
  \<open>pathFar\<close>, on which the last coordinate projects with a negative index: the flag is
  cleared and \<open>activePath\<close> stays \<open>pathA\<close>.
\<close>

theorem reroute_result_not_adopted:
  "rerouteInProgress awaiting \<and> activePath awaiting = Some pathA
   \<and> fst (routeHandler stubEnv (Resolved [pathFar])) = TurnNavigationRerouting pathFar
   \<and> receive stubEnv awaiting (TurnNavigationRerouting pathFar) =
       Inr (awaiting\<lparr>rerouteInProgress := False\<rparr>, [])
   \<and> activePath (nextState stubEnv awaiting (fst (routeHandler stubEnv (Resolved [pathFar]))))
       = Some pathA
   \<and> pathA \<noteq> pathFar"
  by (simp add: awaiting_eq guiding_eq world_defs store_defs js_defs)

text \<open>
  C4, amended. A request resolved with at least one path dispatches
  \<open>TurnNavigationRerouting\<close> with the first one. When the last coordinate projects on that
  path with a negative index, \<open>rerouteInProgress\<close> is cleared and \<open>activePath\<close> is left as
  it is; when the index is that of an instruction of the path, \<open>activePath\<close> becomes that
  path and \<open>rerouteInProgress\<close> is cleared. A request resolved with no path, or rejected,
  dispatches \<open>TurnNavigationReroutingFailed\<close>, which clears \<open>rerouteInProgress\<close> and leaves
  \<open>activePath\<close> as it is.
\<close>

theorem reroute_resolution:
  "fst (routeHandler env (Resolved (p # ps))) = TurnNavigationRerouting p
   \<and> (ci_index (getCurrentInstruction env (instructions p) (coordinate state)) < 0 \<longrightarrow>
        receive env state (TurnNavigationRerouting p) =
          Inr (state\<lparr>rerouteInProgress := False\<rparr>, [])
        \<and> activePath (nextState env state (TurnNavigationRerouting p)) = activePath state
        \<and> \<not> rerouteInProgress (nextState env state (TurnNavigationRerouting p)))
   \<and> (0 \<le> ci_index (getCurrentInstruction env (instructions p) (coordinate state))
      \<and> ci_index (getCurrentInstruction env (instructions p) (coordinate state))
          < int (length (instructions p)) \<longrightarrow>
        (\<exists>state'. receive env state (TurnNavigationRerouting p) = Inr (state', [])
           \<and> activePath state' = Some p \<and> \<not> rerouteInProgress state'))
   \<and> fst (routeHandler env (Resolved [])) = TurnNavigationReroutingFailed
   \<and> fst (routeHandler env Rejected) = TurnNavigationReroutingFailed
   \<and> receive env state TurnNavigationReroutingFailed =
       Inr (state\<lparr>rerouteInProgress := False\<rparr>, [])
   \<and> activePath (nextState env state TurnNavigationReroutingFailed) = activePath state
   \<and> \<not> rerouteInProgress (nextState env state TurnNavigationReroutingFailed)"
  by (simp add: receive_def nextState_def rerouting_def Let_def js_nth_def)

theorem reroute_resolution_witness:
  "ci_index (getCurrentInstruction stubEnv (instructions pathFar) (coordinate awaiting)) < 0
   \<and> activePath (nextState stubEnv awaiting (TurnNavigationRerouting pathFar)) = Some pathA
   \<and> ci_index (getCurrentInstruction stubEnv (instructions pathShort) (coordinate awaiting)) = 0
   \<and> length (instructions pathShort) = 2
   \<and> (\<exists>state'. receive stubEnv awaiting (TurnNavigationRerouting pathShort) = Inr (state', [])
        \<and> activePath state' = Some pathShort \<and> \<not> rerouteInProgress state')"
  using reroute_resolution [of stubEnv pathFar "[]" awaiting]
    reroute_resolution [of stubEnv pathShort "[]" awaiting]
  by (simp add: awaiting_eq guiding_eq world_defs)

section \<open>The guidance display\<close>

lemma receive_keeps_showUI:
  assumes "showUI state" and "action \<noteq> TurnNavigationStop"
    and "receive env state action = Inr (state', effects)"
  shows "showUI state'"
proof (cases action)
  case (LocationUpdate c spd hdg)
  show ?thesis
  proof (cases "selectPath env state (the (initialPath state)) (the (activePath state)) c")
    case (Inl e)
    then show ?thesis
      using assms LocationUpdate
      by (auto simp: receive_def locationUpdate_def split: option.splits if_splits)
  next
    case (Inr r)
    obtain path instr0 skip0 where r: "r = (path, instr0, skip0)" by (cases r) auto
    obtain instr skip where adv: "advanceWaypoint path instr0 skip0 = (instr, skip)"
      by (cases "advanceWaypoint path instr0 skip0") auto
    show ?thesis
      using assms LocationUpdate Inr r adv
        reroute_flips [of state path instr c spd hdg state' effects]
        commit_showUI [of env state state path instr c spd hdg state' effects]
      by (auto simp: receive_def locationUpdate_def split: option.splits if_splits)
  qed
qed (use assms in \<open>auto simp: receive_def rerouting_def Let_def split: if_splits option.splits\<close>)

lemma nextState_keeps_showUI:
  "showUI state \<Longrightarrow> action \<noteq> TurnNavigationStop \<Longrightarrow> showUI (nextState env state action)"
  using receive_keeps_showUI [of state action env]
  by (cases "receive env state action") (auto simp: nextState_def)

lemma receive_sets_showUI:
  assumes "\<not> showUI state" and "receive env state action = Inr (state', effects)"
    and "showUI state'"
  shows "\<exists>c spd hdg path. action = LocationUpdate c spd hdg
     \<and> (activePath state = Some path
        \<or> (initialPath state = Some path
            \<and> (\<exists>active waypoint. activePath state = Some active
                 \<and> length (snapped_waypoints active) = 2
                 \<and> 2 < length (snapped_waypoints path)
                 \<and> getWaypoint active
                     (ci_nextWaypointIndex (getCurrentInstruction env (instructions active) c))
                     = Inr waypoint
                 \<and> skipWaypoint env (distanceToWaypoint (instruction state)) waypoint
                     (coordinate state) c)))
     \<and> 0 \<le> ci_index (getCurrentInstruction env (instructions path) c)"
proof (cases action)
  case (LocationUpdate c spd hdg)
  from assms LocationUpdate obtain initial active
    where i: "initialPath state = Some initial" and a: "activePath state = Some active"
      and p: "activeProfile state \<noteq> []"
    by (auto simp: receive_def locationUpdate_def split: option.splits if_splits)
  show ?thesis
  proof (cases "selectPath env state initial active c")
    case (Inl e)
    then show ?thesis
      using assms LocationUpdate i a p by (simp add: receive_def locationUpdate_def)
  next
    case (Inr r)
    obtain path instr0 skip0 where r: "r = (path, instr0, skip0)" by (cases r) auto
    obtain instr skip where adv: "advanceWaypoint path instr0 skip0 = (instr, skip)"
      by (cases "advanceWaypoint path instr0 skip0") auto
    have "0 \<le> ci_index instr"
      using assms(1,3) assms(2) [unfolded LocationUpdate]
        locationUpdate_branches [OF i a p Inr [unfolded r] adv, of spd hdg]
        reroute_flips [of state path instr c spd hdg state' effects]
        commit_showUI [of env state state path instr c spd hdg state' effects]
      by (auto split: if_splits)
    then have "0 \<le> ci_index (getCurrentInstruction env (instructions path) c)"
      using advanceWaypoint_index [OF adv] selectPath_choice [OF Inr [unfolded r]] by simp
    then show ?thesis
      using LocationUpdate i a selectPath_choice [OF Inr [unfolded r]] by auto
  qed
qed (use assms in \<open>auto simp: receive_def rerouting_def Let_def split: if_splits option.splits\<close>)

lemma states_showUI_stays:
  "showUI state \<Longrightarrow> TurnNavigationStop \<notin> set actions \<Longrightarrow>
     rises (map showUI (states env state actions)) = 0
     \<and> (\<forall>s \<in> set (states env state actions). showUI s)"
proof (induction actions arbitrary: state)
  case Nil
  then show ?case by simp
next
  case (Cons a as)
  then have n: "showUI (nextState env state a)"
    using nextState_keeps_showUI [of state a env] by auto
  have "TurnNavigationStop \<notin> set as" using Cons.prems by simp
  from Cons.IH [OF n this] Cons.prems(1) n show ?case
    by (cases as) auto
qed

lemma states_rises:
  "TurnNavigationStop \<notin> set actions \<Longrightarrow> rises (map showUI (states env state actions)) \<le> 1"
proof (induction actions arbitrary: state)
  case Nil
  then show ?case by simp
next
  case (Cons a as)
  have tl: "TurnNavigationStop \<notin> set as" using Cons.prems by simp
  show ?case
  proof (cases "showUI state")
    case True
    have "rises (map showUI (states env state (a # as))) = 0"
      using states_showUI_stays [OF True Cons.prems, of env] by blast
    then show ?thesis by linarith
  next
    case False
    show ?thesis
    proof (cases "showUI (nextState env state a)")
      case True
      from states_showUI_stays [OF True tl, of env] False True show ?thesis
        by (cases as) auto
    next
      case n: False
      from Cons.IH [OF tl, of "nextState env state a"] False n show ?thesis
        by (cases as) auto
    qed
  qed
qed

text \<open>
  C5, as the claim states it: \<open>showUI\<close> becomes true only when the fix projects on
  \<open>activePath\<close> with an index that is not negative. In \<open>onLeg\<close> the active path is the leg of
  two waypoints and the initial path has three. A fix 10 before the end of the leg is within
  50 of its waypoint, so the store goes back to the initial path; the waypoint test fails
  there, the fix is committed on the initial path and \<open>showUI\<close> becomes true, while the
  projection on \<open>activePath\<close> has index -1.
\<close>

theorem showUI_set_by_fix_on_initial_path:
  "\<not> showUI onLeg \<and> activePath onLeg = Some pathLeg \<and> initialPath onLeg = Some pathVia
   \<and> showUI (nextState stubEnv onLeg (fixAt 1990 0))
   \<and> ci_index (getCurrentInstruction stubEnv (instructions pathLeg) \<lparr>lat = 0, lng = 1990\<rparr>) < 0
   \<and> ci_index (getCurrentInstruction stubEnv (instructions pathVia) \<lparr>lat = 0, lng = 1990\<rparr>) = 0"
  by (simp add: onLeg_def world_defs store_defs js_defs)

text \<open>
  C5, amended. No action but \<open>TurnNavigationStop\<close> takes \<open>showUI\<close> from true to false.
  \<open>showUI\<close> goes from false to true only on a fix that projects, with an index that is not
  negative, on the path the store follows for that fix: \<open>activePath\<close>, or \<open>initialPath\<close>
  when \<open>activePath\<close> has two waypoints, its waypoint is to be skipped and \<open>initialPath\<close> has
  more than two. Hence on a run of actions with no \<open>TurnNavigationStop\<close>, \<open>showUI\<close> goes
  from false to true at most once.
\<close>

theorem showUI_transitions:
  "(showUI state \<and> action \<noteq> TurnNavigationStop \<longrightarrow> showUI (nextState env state action))
   \<and> (\<not> showUI state1 \<and> showUI (nextState env state1 action1) \<longrightarrow>
        (\<exists>c spd hdg path. action1 = LocationUpdate c spd hdg
           \<and> (activePath state1 = Some path
              \<or> (initialPath state1 = Some path
                  \<and> (\<exists>active waypoint. activePath state1 = Some active
                       \<and> length (snapped_waypoints active) = 2
                       \<and> 2 < length (snapped_waypoints path)
                       \<and> getWaypoint active
                           (ci_nextWaypointIndex
                              (getCurrentInstruction env (instructions active) c))
                           = Inr waypoint
                       \<and> skipWaypoint env (distanceToWaypoint (instruction state1)) waypoint
                           (coordinate state1) c)))
           \<and> 0 \<le> ci_index (getCurrentInstruction env (instructions path) c)))
   \<and> (TurnNavigationStop \<notin> set actions \<longrightarrow>
        rises (map showUI (states env state2 actions)) \<le> 1)"
proof (intro conjI impI)
  show "showUI (nextState env state action)"
    if "showUI state \<and> action \<noteq> TurnNavigationStop"
    using that nextState_keeps_showUI by simp
  show "rises (map showUI (states env state2 actions)) \<le> 1"
    if "TurnNavigationStop \<notin> set actions"
    using that by (rule states_rises)
  assume h: "\<not> showUI state1 \<and> showUI (nextState env state1 action1)"
  then obtain state' effects where "receive env state1 action1 = Inr (state', effects)"
    and "showUI state'"
    by (cases "receive env state1 action1") (auto simp: nextState_def)
  with h show "\<exists>c spd hdg path. action1 = LocationUpdate c spd hdg
           \<and> (activePath state1 = Some path
              \<or> (initialPath state1 = Some path
                  \<and> (\<exists>active waypoint. activePath state1 = Some active
                       \<and> length (snapped_waypoints active) = 2
                       \<and> 2 < length (snapped_waypoints path)
                       \<and> getWaypoint active
                           (ci_nextWaypointIndex
                              (getCurrentInstruction env (instructions active) c))
                           = Inr waypoint
                       \<and> skipWaypoint env (distanceToWaypoint (instruction state1)) waypoint
                           (coordinate state1) c)))
           \<and> 0 \<le> ci_index (getCurrentInstruction env (instructions path) c)"
    using receive_sets_showUI [of state1 env action1 state' effects] by blast
qed

theorem showUI_transitions_witness:
  "showUI guiding \<and> showUI (nextState stubEnv guiding (fixAt 300 100))
   \<and> \<not> showUI (ready pathA) \<and> showUI (nextState stubEnv (ready pathA) (fixAt 400 0))
   \<and> 0 \<le> ci_index (getCurrentInstruction stubEnv (instructions pathA) \<lparr>lat = 0, lng = 400\<rparr>)
   \<and> rises (map showUI (states stubEnv (ready pathA)
        [fixAt 400 0, fixAt 300 100, TurnNavigationReroutingFailed, fixAt 200 0])) \<le> 1"
proof -
  have a: "showUI (nextState stubEnv (ready pathA) (fixAt 400 0))"
    using guiding_showUI by (simp add: guiding_def)
  have c: "0 \<le> ci_index (getCurrentInstruction stubEnv (instructions pathA) \<lparr>lat = 0, lng = 400\<rparr>)"
    by (simp add: world_defs)
  show ?thesis
    using showUI_transitions [of guiding "fixAt 300 100" stubEnv "ready pathA" "fixAt 400 0"
        "[fixAt 400 0, fixAt 300 100, TurnNavigationReroutingFailed, fixAt 200 0]" "ready pathA"]
      guiding_showUI a ready_fields(4) [of pathA] c
    by (simp add: fixAt_def)
qed

section \<open>The near announcement\<close>

lemma far_text_differs: "xs @ '' '' @ t \<noteq> t"
  by (auto dest: arg_cong [where f = length])

lemma announce_near:
  assumes "soundEnabled (settings state)"
  shows "filter (\<lambda>e. e = Speak (instr_text ni)) (announce env state state instr ni avg) =
     (if nearAnnouncement (instruction state) instr avg then [Speak (instr_text ni)] else [])"
  using assms by (simp add: announce_def synthesize_def far_text_differs)

lemma guidingSlow_eq:
  "guidingSlow = (ready pathSlow)\<lparr>showUI := True, coordinate := \<lparr>lat = 0, lng = 400\<rparr>,
     speed := 4, heading := 0,
     instruction := \<lparr>index = Num 0, distanceToTurn = Num 400, timeToEnd = Num 0,
       distanceToEnd = Num 1400, nextWaypointIndex = Num 1, distanceToWaypoint = Num 1400,
       sign = Num (- 2), instructionText = Some ''Main St'', distanceToRoute = Num 0\<rparr>,
     pathDetails := \<lparr>maxSpeed = Undefined, estimatedAvgSpeed = Num 5,
       surface = Some ''asphalt'', roadClass = Some ''primary''\<rparr>\<rparr>"
  by (simp add: guidingSlow_def world_defs store_defs js_defs)

lemma approaching_eq:
  "approaching = guidingSlow\<lparr>coordinate := \<lparr>lat = 0, lng = 30\<rparr>,
     instruction := \<lparr>index = Num 0, distanceToTurn = Num 30, timeToEnd = Num 0,
       distanceToEnd = Num 1030, nextWaypointIndex = Num 1, distanceToWaypoint = Num 1030,
       sign = Num (- 2), instructionText = Some ''Main St'', distanceToRoute = Num 0\<rparr>\<rparr>"
  by (simp add: approaching_def guidingSlow_eq world_defs store_defs js_defs)

text \<open>
  C6, as the claim states it: at an average speed of 25 the threshold is 20, the distances
  to the turn 30 and 18 give one announcement, at the second fix, and an instruction is
  announced once. The threshold at 25 is 60, and on \<open>pathA\<close>, driven at 25, the
  announcement comes at the first of the two fixes. On \<open>pathSlow\<close>, driven at 5, the
  threshold is 20, and the distances 30, 18, 25, 15 to the same turn give two announcements.
\<close>

theorem near_announcement_examples_differ:
  "lastAnnounceDistance (Num 25) = Num 60
   \<and> effectsTrace stubEnv guiding [fixAt 30 0, fixAt 18 0] = [[Speak ''Turn left''], []]
   \<and> map (index \<circ> instruction) (states stubEnv guidingSlow
        [fixAt 30 0, fixAt 18 0, fixAt 25 0, fixAt 15 0]) = [Num 0, Num 0, Num 0, Num 0, Num 0]
   \<and> effectsTrace stubEnv guidingSlow [fixAt 30 0, fixAt 18 0, fixAt 25 0, fixAt 15 0] =
       [[], [Speak ''Turn left''], [], [Speak ''Turn left'']]"
  by (simp add: guiding_eq guidingSlow_eq world_defs store_defs js_defs)

text \<open>
  C6, amended. The threshold is \<open>10 + 2 * round (avgSpeed / 5) * 5\<close>. With sound enabled,
  a committed fix announces the text of its instruction exactly when its distance to the
  turn is at most the threshold and either the distance recorded before was above the
  threshold or the index of the instruction has changed. At an average speed of 25 the
  threshold is 60, at 5 it is 20; at 5, the distances 30 and 18 give one announcement, at
  the second fix.
\<close>

theorem near_announcement:
  assumes "initialPath state = Some initial" and "activePath state = Some active"
    and "activeProfile state \<noteq> []"
    and "selectPath env state initial active c = Inr (path, instr0, skip0)"
    and "advanceWaypoint path instr0 skip0 = (instr, skip)"
    and "\<not> ((showUI state \<and> distanceToRouteChange state (ci_distanceToRoute instr)) \<or> skip)"
    and "0 \<le> ci_index instr"
    and "js_nth (instructions path) (ci_index instr) = Some nextInstruction"
    and "soundEnabled (settings state)"
    and "fst (getCurrentDetails env path c (details path)) = avgSpeed"
  shows "lastAnnounceDistance (Num v) = Num (10 + 2 * of_int \<lfloor>v / 5 + 1 / 2\<rfloor> * 5)
    \<and> filter (\<lambda>e. e = Speak (instr_text nextInstruction))
        (effectsOf env state (LocationUpdate c spd hdg)) =
      (if js_le (ci_distanceToTurn instr) (lastAnnounceDistance avgSpeed)
          \<and> (js_gt (distanceToTurn (instruction state)) (lastAnnounceDistance avgSpeed)
             \<or> js_neq (Num (of_int (ci_index instr))) (index (instruction state)))
       then [Speak (instr_text nextInstruction)] else [])
    \<and> lastAnnounceDistance (Num 25) = Num 60
    \<and> lastAnnounceDistance (Num 5) = Num 20
    \<and> effectsTrace stubEnv guidingSlow [fixAt 30 0, fixAt 18 0] = [[], [Speak ''Turn left'']]"
proof (intro conjI)
  show "lastAnnounceDistance (Num v) = Num (10 + 2 * of_int \<lfloor>v / 5 + 1 / 2\<rfloor> * 5)"
    by (simp add: lastAnnounceDistance_def js_defs)
  show "lastAnnounceDistance (Num 25) = Num 60"
    by (simp add: lastAnnounceDistance_def js_defs)
  show "lastAnnounceDistance (Num 5) = Num 20"
    by (simp add: lastAnnounceDistance_def js_defs)
  show "effectsTrace stubEnv guidingSlow [fixAt 30 0, fixAt 18 0] = [[], [Speak ''Turn left'']]"
    by (simp add: guidingSlow_eq world_defs store_defs js_defs)
  have "receive env state (LocationUpdate c spd hdg) =
      commit env state state path instr c spd hdg"
    using locationUpdate_branches [OF assms(1-5), of spd hdg] assms(6) by auto
  then have "effectsOf env state (LocationUpdate c spd hdg) =
      announce env state state instr nextInstruction avgSpeed"
    using assms(7,8,10) by (simp add: effectsOf_def commit_def Let_def)
  then show "filter (\<lambda>e. e = Speak (instr_text nextInstruction))
        (effectsOf env state (LocationUpdate c spd hdg)) =
      (if js_le (ci_distanceToTurn instr) (lastAnnounceDistance avgSpeed)
          \<and> (js_gt (distanceToTurn (instruction state)) (lastAnnounceDistance avgSpeed)
             \<or> js_neq (Num (of_int (ci_index instr))) (index (instruction state)))
       then [Speak (instr_text nextInstruction)] else [])"
    using announce_near [OF assms(9), of nextInstruction env instr avgSpeed]
    by (simp add: nearAnnouncement_def)
qed

theorem near_announcement_witness:
  "soundEnabled (settings approaching)
   \<and> distanceToTurn (instruction approaching) = Num 30
   \<and> ci_distanceToTurn (stubInstruction (instructions pathSlow) \<lparr>lat = 0, lng = 18\<rparr>) = Num 18
   \<and> fst (getCurrentDetails stubEnv pathSlow \<lparr>lat = 0, lng = 18\<rparr> (details pathSlow)) = Num 5
   \<and> filter (\<lambda>e. e = Speak ''Turn left'') (effectsOf stubEnv approaching (fixAt 18 0)) =
       [Speak ''Turn left'']"
proof -
  let ?c = "\<lparr>lat = 0, lng = 18\<rparr>"
  let ?instr = "stubInstruction (instructions pathSlow) ?c"
  have s: "initialPath approaching = Some pathSlow" "activePath approaching = Some pathSlow"
    "activeProfile approaching \<noteq> []" "soundEnabled (settings approaching)"
    "distanceToTurn (instruction approaching) = Num 30"
    "index (instruction approaching) = Num 0"
    by (simp_all add: approaching_eq guidingSlow_eq ready_def initialState_def)
  have a: "selectPath stubEnv approaching pathSlow pathSlow ?c = Inr (pathSlow, ?instr, False)"
    by (simp add: approaching_eq guidingSlow_eq selectPath_def getWaypoint_def skipWaypoint_def
        world_defs js_defs)
  have b: "advanceWaypoint pathSlow ?instr False = (?instr, False)"
    by (simp add: advanceWaypoint_def)
  have q: "\<not> ((showUI approaching
        \<and> distanceToRouteChange approaching (ci_distanceToRoute ?instr)) \<or> False)"
    by (simp add: approaching_eq guidingSlow_eq distanceToRouteChange_def world_defs js_defs)
  have i: "0 \<le> ci_index ?instr" "ci_index ?instr = 0" "ci_distanceToTurn ?instr = Num 18"
    by (simp_all add: world_defs)
  have n: "js_nth (instructions pathSlow) (ci_index ?instr) = Some (turnLeft (0, 0))"
    by (simp add: js_nth_def world_defs)
  have d: "fst (getCurrentDetails stubEnv pathSlow ?c (details pathSlow)) = Num 5"
    by (simp add: world_defs)
  have t: "instr_text (turnLeft (0, 0)) = ''Turn left''"
    by (simp add: turnLeft_def)
  show ?thesis
    using near_announcement [OF s(1) s(2) s(3) a b q i(1) n s(4) d, of 5 4 0] s i d t
    by (simp add: fixAt_def js_defs)
qed

section \<open>A fix after the stop\<close>

text \<open>
  C7, as the claim states it: a fix handled after \<open>TurnNavigationStop\<close> changes no state.
  Guidance on \<open>pathA\<close> is stopped and a fix 390 before the turn follows: the fix is
  committed, \<open>showUI\<close> is true again and the coordinate is that of the fix.
\<close>

theorem fix_after_stop_changes_state:
  "\<not> showUI stopped \<and> \<not> started stopped
   \<and> showUI (nextState stubEnv stopped (fixAt 390 0))
   \<and> coordinate (nextState stubEnv stopped (fixAt 390 0)) = \<lparr>lat = 0, lng = 390\<rparr>
   \<and> nextState stubEnv stopped (fixAt 390 0) \<noteq> stopped"
proof -
  have "\<not> showUI stopped \<and> \<not> started stopped
   \<and> showUI (nextState stubEnv stopped (fixAt 390 0))
   \<and> coordinate (nextState stubEnv stopped (fixAt 390 0)) = \<lparr>lat = 0, lng = 390\<rparr>"
    by (simp add: stopped_eq guiding_eq world_defs store_defs js_defs)
  then show ?thesis by auto
qed

text \<open>
  C7, amended. The branch of \<open>LocationUpdate\<close> does not read \<open>started\<close>. A fix handled
  after \<open>TurnNavigationStop\<close> returns the stopped state unchanged, with no error and no
  effect, exactly when both paths are set and \<open>activeProfile\<close> is empty; in every other
  case it throws or returns a different state.
\<close>

theorem fix_after_stop:
  "(receive env (nextState env state TurnNavigationStop) (LocationUpdate c spd hdg) =
      Inr (nextState env state TurnNavigationStop, []))
   = (initialPath state \<noteq> None \<and> activePath state \<noteq> None \<and> activeProfile state = [])"
proof -
  define s where "s = nextState env state TurnNavigationStop"
  have s: "s = state\<lparr>showUI := False, started := False, speed := 0, heading := 0\<rparr>"
    by (simp add: s_def nextState_def receive_def)
  have "(receive env s (LocationUpdate c spd hdg) = Inr (s, []))
    = (initialPath s \<noteq> None \<and> activePath s \<noteq> None \<and> activeProfile s = [])"
  proof (cases "initialPath s")
    case None
    then show ?thesis by (simp add: receive_def locationUpdate_def)
  next
    case (Some initial)
    note i = this
    show ?thesis
    proof (cases "activePath s")
      case None
      then show ?thesis using i by (simp add: receive_def locationUpdate_def)
    next
      case (Some active)
      note a = this
      show ?thesis
      proof (cases "activeProfile s = []")
        case True
        then show ?thesis using i a by (simp add: receive_def locationUpdate_def)
      next
        case False
        have "receive env s (LocationUpdate c spd hdg) \<noteq> Inr (s, [])"
        proof (cases "selectPath env s initial active c")
          case (Inl e)
          then show ?thesis using i a False by (simp add: receive_def locationUpdate_def)
        next
          case (Inr r)
          obtain path instr0 skip0 where r: "r = (path, instr0, skip0)" by (cases r) auto
          obtain instr skip where adv: "advanceWaypoint path instr0 skip0 = (instr, skip)"
            by (cases "advanceWaypoint path instr0 skip0") auto
          have "\<not> showUI s" by (simp add: s)
          then show ?thesis
            using locationUpdate_branches [OF i a False Inr [unfolded r] adv, of spd hdg]
              reroute_flips [of s path instr c spd hdg s "[]"]
              commit_showUI [of env s s path instr c spd hdg s "[]"]
            by (auto split: if_splits)
        qed
        with False show ?thesis by simp
      qed
    qed
  qed
  then show ?thesis by (simp add: s_def [symmetric]) (simp add: s)
qed

theorem fix_after_stop_witness:
  "receive stubEnv (nextState stubEnv ((ready pathA)\<lparr>activeProfile := []\<rparr>) TurnNavigationStop)
     (fixAt 390 0) =
   Inr (nextState stubEnv ((ready pathA)\<lparr>activeProfile := []\<rparr>) TurnNavigationStop, [])"
  using fix_after_stop [of stubEnv "(ready pathA)\<lparr>activeProfile := []\<rparr>" "\<lparr>lat = 0, lng = 390\<rparr>" 4 0]
  by (simp add: fixAt_def ready_def initialState_def)

section \<open>Advancing to the next waypoint\<close>

text \<open>
  C8. When the waypoint is to be skipped and the index of the next waypoint plus one is
  not below the number of snapped waypoints, the skip is cancelled: the index stays, and
  unless the deviation reroutes, the fix is committed and no routing request is sent.
  Otherwise the index of the next waypoint goes up by exactly one, the fix reroutes, and
  with no request under way the request goes to that waypoint.
\<close>

theorem waypoint_advance_or_cancel:
  assumes "initialPath state = Some initial" and "activePath state = Some active"
    and "activeProfile state \<noteq> []"
    and "selectPath env state initial active c = Inr (path, instr0, True)"
  shows "(\<not> ci_nextWaypointIndex instr0 + 1 < int (length (snapped_waypoints path)) \<longrightarrow>
        advanceWaypoint path instr0 True = (instr0, False)
        \<and> (\<not> (showUI state \<and> distanceToRouteChange state (ci_distanceToRoute instr0)) \<longrightarrow>
             receive env state (LocationUpdate c spd hdg) =
               commit env state state path instr0 c spd hdg
             \<and> routeRequests (effectsOf env state (LocationUpdate c spd hdg)) = []))
     \<and> (ci_nextWaypointIndex instr0 + 1 < int (length (snapped_waypoints path)) \<longrightarrow>
        advanceWaypoint path instr0 True =
          (instr0\<lparr>ci_nextWaypointIndex := ci_nextWaypointIndex instr0 + 1\<rparr>, True)
        \<and> receive env state (LocationUpdate c spd hdg) =
            reroute state path
              (instr0\<lparr>ci_nextWaypointIndex := ci_nextWaypointIndex instr0 + 1\<rparr>) c spd hdg
        \<and> (\<not> rerouteInProgress state \<longrightarrow>
             (\<exists>toCoordinate.
                getWaypoint path (ci_nextWaypointIndex instr0 + 1) = Inr toCoordinate
                \<and> effectsOf env state (LocationUpdate c spd hdg) =
                    [Route (routingArgs state c toCoordinate hdg)])))"
proof (intro conjI impI)
  assume last: "\<not> ci_nextWaypointIndex instr0 + 1 < int (length (snapped_waypoints path))"
  then show adv: "advanceWaypoint path instr0 True = (instr0, False)"
    by (simp add: advanceWaypoint_def)
  assume quiet: "\<not> (showUI state \<and> distanceToRouteChange state (ci_distanceToRoute instr0))"
  show r: "receive env state (LocationUpdate c spd hdg) =
      commit env state state path instr0 c spd hdg"
    using locationUpdate_branches [OF assms adv, of spd hdg] quiet by simp
  show "routeRequests (effectsOf env state (LocationUpdate c spd hdg)) = []"
    using r commit_no_route [of env state state path instr0 c spd hdg]
    by (cases "commit env state state path instr0 c spd hdg")
      (auto simp: effectsOf_def routeRequests_def)
next
  assume more: "ci_nextWaypointIndex instr0 + 1 < int (length (snapped_waypoints path))"
  then show adv: "advanceWaypoint path instr0 True =
      (instr0\<lparr>ci_nextWaypointIndex := ci_nextWaypointIndex instr0 + 1\<rparr>, True)"
    by (simp add: advanceWaypoint_def)
  show r: "receive env state (LocationUpdate c spd hdg) =
      reroute state path
        (instr0\<lparr>ci_nextWaypointIndex := ci_nextWaypointIndex instr0 + 1\<rparr>) c spd hdg"
    using locationUpdate_branches [OF assms adv, of spd hdg] by simp
  assume idle: "\<not> rerouteInProgress state"
  have range: "0 \<le> ci_nextWaypointIndex instr0 + 1"
    using selectPath_waypoint [OF assms(4)] by simp
  show "\<exists>toCoordinate.
      getWaypoint path (ci_nextWaypointIndex instr0 + 1) = Inr toCoordinate
      \<and> effectsOf env state (LocationUpdate c spd hdg) =
          [Route (routingArgs state c toCoordinate hdg)]"
    using r idle more range
    by (simp add: effectsOf_def reroute_def queryAPI_def getWaypoint_def js_nth_def)
qed

theorem waypoint_advance_or_cancel_witness:
  "selectPath stubEnv (ready pathShort) pathShort pathShort \<lparr>lat = 0, lng = - 90\<rparr> =
     Inr (pathShort, stubInstruction (instructions pathShort) \<lparr>lat = 0, lng = - 90\<rparr>, True)
   \<and> receive stubEnv (ready pathShort) (fixAt (- 90) 0) =
       commit stubEnv (ready pathShort) (ready pathShort) pathShort
         (stubInstruction (instructions pathShort) \<lparr>lat = 0, lng = - 90\<rparr>) \<lparr>lat = 0, lng = - 90\<rparr> 4 0
   \<and> routeRequests (effectsOf stubEnv (ready pathShort) (fixAt (- 90) 0)) = []
   \<and> selectPath stubEnv (ready pathVia) pathVia pathVia \<lparr>lat = 0, lng = 990\<rparr> =
       Inr (pathVia, stubInstruction (instructions pathVia) \<lparr>lat = 0, lng = 990\<rparr>, True)
   \<and> effectsOf stubEnv (ready pathVia) (fixAt 990 0) =
       [Route (routingArgs (ready pathVia) \<lparr>lat = 0, lng = 990\<rparr> \<lparr>lat = 0, lng = 2000\<rparr> 0)]"
proof -
  have a: "selectPath stubEnv (ready pathShort) pathShort pathShort \<lparr>lat = 0, lng = - 90\<rparr> =
     Inr (pathShort, stubInstruction (instructions pathShort) \<lparr>lat = 0, lng = - 90\<rparr>, True)"
    by (simp add: selectPath_def getWaypoint_def skipWaypoint_def world_defs js_defs)
  have b: "selectPath stubEnv (ready pathVia) pathVia pathVia \<lparr>lat = 0, lng = 990\<rparr> =
       Inr (pathVia, stubInstruction (instructions pathVia) \<lparr>lat = 0, lng = 990\<rparr>, True)"
    by (simp add: selectPath_def getWaypoint_def skipWaypoint_def world_defs js_defs)
  have d: "getWaypoint pathVia 2 = Inr \<lparr>lat = 0, lng = 2000\<rparr>"
    by (simp add: getWaypoint_def js_nth_def pathVia_def)
  have e: "int (length (snapped_waypoints pathShort)) = 2"
    "int (length (snapped_waypoints pathVia)) = 3"
    "ci_nextWaypointIndex (stubInstruction (instructions pathShort) x) = 1"
    "ci_nextWaypointIndex (stubInstruction (instructions pathVia) x) = 1" for x
    by (simp_all add: world_defs)
  show ?thesis
    using waypoint_advance_or_cancel [OF ready_fields(1-3) a, of 4 0]
      waypoint_advance_or_cancel [OF ready_fields(1-3) b, of 4 0] a b d e
      ready_fields(4,5) [of pathShort] ready_fields(4,5) [of pathVia]
    by (simp add: fixAt_def)
qed

section \<open>Stopping and selecting a path\<close>

text \<open>
  C9. \<open>TurnNavigationStop\<close> sets \<open>showUI\<close> and \<open>started\<close> to false and \<open>speed\<close> and
  \<open>heading\<close> to 0, and leaves every other field as it is: the coordinate, both paths, the
  profile, the custom model, \<open>rerouteInProgress\<close>, the two snapshots, the settings and
  \<open>oldTiles\<close>.
\<close>

theorem stop_resets_only_four_fields:
  "\<exists>state' effects. reduce env this state TurnNavigationStop = Inr (state', effects)
     \<and> \<not> showUI state' \<and> \<not> started state' \<and> speed state' = 0 \<and> heading state' = 0
     \<and> coordinate state' = coordinate state \<and> initialPath state' = initialPath state
     \<and> activePath state' = activePath state \<and> activeProfile state' = activeProfile state
     \<and> customModel state' = customModel state
     \<and> rerouteInProgress state' = rerouteInProgress state
     \<and> instruction state' = instruction state \<and> pathDetails state' = pathDetails state
     \<and> settings state' = settings state \<and> oldTiles state' = oldTiles state"
  by simp

theorem stop_resets_only_four_fields_witness:
  "\<exists>state' effects. reduce stubEnv guiding guiding TurnNavigationStop = Inr (state', effects)
     \<and> \<not> showUI state' \<and> \<not> started state' \<and> speed state' = 0 \<and> heading state' = 0
     \<and> activePath state' = Some pathA \<and> initialPath state' = Some pathA
     \<and> activeProfile state' = ''car''"
  using stop_resets_only_four_fields [of stubEnv guiding guiding]
  by (auto simp: guiding_eq ready_def initialState_def)

text \<open>
  C10. \<open>SetSelectedPath\<close> while \<open>showUI\<close> is true throws and changes no state. While
  \<open>showUI\<close> is false it sets \<open>initialPath\<close> and \<open>activePath\<close> to the given path, empties
  the two snapshots and leaves the other fields as they are.
\<close>

theorem setSelectedPath_guarded:
  "(showUI state \<longrightarrow>
      (\<exists>msg. reduce env this state (SetSelectedPath path) = Inl (Error msg))
      \<and> nextState env state (SetSelectedPath path) = state)
   \<and> (\<not> showUI state \<longrightarrow>
      reduce env this state (SetSelectedPath path) =
        Inr (state\<lparr>initialPath := Some path, activePath := Some path,
               instruction := emptyInstruction, pathDetails := emptyPathDetails\<rparr>, [])
      \<and> (\<exists>state'. nextState env state (SetSelectedPath path) = state'
           \<and> initialPath state' = Some path \<and> activePath state' = Some path
           \<and> instruction state' = emptyInstruction \<and> pathDetails state' = emptyPathDetails
           \<and> showUI state' = showUI state \<and> started state' = started state
           \<and> oldTiles state' = oldTiles state \<and> coordinate state' = coordinate state
           \<and> speed state' = speed state \<and> heading state' = heading state
           \<and> activeProfile state' = activeProfile state
           \<and> customModel state' = customModel state
           \<and> rerouteInProgress state' = rerouteInProgress state
           \<and> settings state' = settings state))"
  by (simp add: nextState_def receive_def)

theorem setSelectedPath_guarded_witness:
  "showUI guiding
   \<and> reduce stubEnv guiding guiding (SetSelectedPath pathFar) =
       Inl (Error ''Changing path while turn navigation should not happen'')
   \<and> \<not> showUI (ready pathA)
   \<and> activePath (nextState stubEnv (ready pathA) (SetSelectedPath pathFar)) = Some pathFar"
  using setSelectedPath_guarded [of guiding stubEnv guiding pathFar]
    setSelectedPath_guarded [of "ready pathA" stubEnv "ready pathA" pathFar] guiding_showUI
  by (simp add: ready_def initialState_def)

end
